theory Spec2Isabelle
  imports Complex_Main
begin

section \<open>Numbers and typed arrays\<close>

text \<open>
  The visualizer is TypeScript.  A JavaScript \<^verbatim>\<open>number\<close> is modelled as a real: the
  arithmetic of the source is taken exactly, without the rounding of IEEE doubles.  Loop
  counters and sample indices are integers (\<^typ>\<open>int\<close>); \<^verbatim>\<open>Math.floor(a / b)\<close> on
  integers is \<open>div\<close>, which rounds towards minus infinity as \<^verbatim>\<open>Math.floor\<close> does.

  A \<^verbatim>\<open>Uint8Array\<close> is a list of integers.  Storing an integral number into it keeps the
  number modulo 256 (\<open>toUint8\<close>); a fresh array holds zeros.
\<close>

type_synonym number = real

type_synonym Uint8Array = "int list"

definition toUint8 :: "int \<Rightarrow> int" where
  "toUint8 v = v mod 256"

definition newUint8Array :: "nat \<Rightarrow> Uint8Array" where
  "newUint8Array n = replicate n 0"

section \<open>Spectrum provider, offline mode\<close>

text \<open>
  The decoded audio: its sample rate and the samples of channel 0.  The Web Audio
  \<^verbatim>\<open>AudioBuffer.duration\<close> is the number of sample frames over the sample rate.
\<close>

record AudioBuffer =
  sampleRate :: number
  channelData :: "number list"

definition duration :: "AudioBuffer \<Rightarrow> number" where
  "duration b = real (length (channelData b)) / sampleRate b"

definition fftSize :: int where
  "fftSize = 2048"

definition frequencyBinCount :: int where
  "frequencyBinCount = fftSize div 2"

text \<open>
  The innermost loop of \<^verbatim>\<open>analyzeAudioOffline\<close>:
  \<^verbatim>\<open>for (let i = binStart; i < binEnd && i < channelData.length; i++) sum += Math.abs(channelData[i])\<close>.
\<close>

function sampleLoop :: "number list \<Rightarrow> int \<Rightarrow> int \<Rightarrow> number \<Rightarrow> number" where
  "sampleLoop cd binEnd i sm =
     (if i < binEnd \<and> i < int (length cd)
      then sampleLoop cd binEnd (i + 1) (sm + \<bar>cd ! nat i\<bar>)
      else sm)"
  by pat_completeness auto
termination
  by (relation "measure (\<lambda>(cd, binEnd, i, sm). nat (binEnd - i))") auto

declare sampleLoop.simps [simp del]

text \<open>The body of the loop over the bins: the value stored in \<^verbatim>\<open>frameData[bin]\<close>.\<close>

definition binValue :: "number list \<Rightarrow> int \<Rightarrow> int \<Rightarrow> int \<Rightarrow> int" where
  "binValue cd startSample endSample bin =
     (let binSize = max 1 ((endSample - startSample) div frequencyBinCount);
          binStart = startSample + bin * binSize;
          binEnd = min (binStart + binSize) endSample;
          sm = sampleLoop cd binEnd binStart 0;
          avg = (if binSize > 0 then sm / real_of_int binSize else 0)
      in min 255 \<lfloor>avg * 512\<rfloor>)"

function binLoop :: "number list \<Rightarrow> int \<Rightarrow> int \<Rightarrow> int \<Rightarrow> Uint8Array \<Rightarrow> Uint8Array" where
  "binLoop cd startSample endSample bin frameData =
     (if bin < frequencyBinCount
      then binLoop cd startSample endSample (bin + 1)
             (frameData[nat bin := toUint8 (binValue cd startSample endSample bin)])
      else frameData)"
  by pat_completeness auto
termination
  by (relation "measure (\<lambda>(cd, s, e, bin, fd). nat (frequencyBinCount - bin))") auto

declare binLoop.simps [simp del]

text \<open>The body of the loop over the frames: the array pushed for one frame.\<close>

definition frameSpectrum :: "number list \<Rightarrow> int \<Rightarrow> int \<Rightarrow> Uint8Array" where
  "frameSpectrum cd samplesPerFrame frame =
     (let startSample = frame * samplesPerFrame;
          endSample = min (startSample + fftSize) (int (length cd))
      in binLoop cd startSample endSample 0 (newUint8Array (nat frequencyBinCount)))"

function frameLoop ::
  "number list \<Rightarrow> int \<Rightarrow> int \<Rightarrow> int \<Rightarrow> Uint8Array list \<Rightarrow> Uint8Array list" where
  "frameLoop cd samplesPerFrame totalFrames frame frames =
     (if frame < totalFrames
      then frameLoop cd samplesPerFrame totalFrames (frame + 1)
             (frames @ [frameSpectrum cd samplesPerFrame frame])
      else frames)"
  by pat_completeness auto
termination
  by (relation "measure (\<lambda>(cd, spf, total, frame, frames). nat (total - frame))") auto

declare frameLoop.simps [simp del]

definition totalFramesOf :: "AudioBuffer \<Rightarrow> number \<Rightarrow> int" where
  "totalFramesOf b fps = \<lceil>duration b * fps\<rceil>"

definition analyzeAudioOffline :: "AudioBuffer \<Rightarrow> number \<Rightarrow> Uint8Array list" where
  "analyzeAudioOffline b fps =
     (let totalFrames = totalFramesOf b fps;
          samplesPerFrame = \<lfloor>sampleRate b / fps\<rfloor>
      in frameLoop (channelData b) samplesPerFrame totalFrames 0 [])"





section \<open>JavaScript arithmetic used by the renderer\<close>

text \<open>
  \<^verbatim>\<open>a % b\<close> on numbers is the remainder of the division truncated towards zero, with
  the sign of \<open>a\<close>.  (For \<open>b = 0\<close> JavaScript gives NaN; the renderer only divides by the
  canvas size and by positive constants.)  \<^verbatim>\<open>Math.round\<close> rounds halves up.
  Storing a number into a \<^verbatim>\<open>Uint8Array\<close> truncates it first.
\<close>

definition truncInt :: "number \<Rightarrow> int" where
  "truncInt v = (if 0 \<le> v then \<lfloor>v\<rfloor> else \<lceil>v\<rceil>)"

definition jsMod :: "number \<Rightarrow> number \<Rightarrow> number" where
  "jsMod a b = a - b * real_of_int (truncInt (a / b))"

definition mathRound :: "number \<Rightarrow> int" where
  "mathRound v = \<lfloor>v + 1 / 2\<rfloor>"

definition storeUint8 :: "number \<Rightarrow> int" where
  "storeUint8 v = toUint8 (truncInt v)"

section \<open>Configuration\<close>

datatype PresetType =
    NCS_Circle | Linear_Bars | Dual_Mirror | Center_Wave
  | Orbital | Digital_Rain | Hexagon | Shockwave
  | Oscilloscope | Minimal

record VisualizerConfig =
  preset :: PresetType
  primaryColor :: string
  secondaryColor :: string
  bgDim :: number
  particleCount :: number

text \<open>
  \<^verbatim>\<open>EffectConfig\<close> and \<^verbatim>\<open>EffectIntensities\<close> are two interfaces with the same thirteen
  keys; the flag \<^verbatim>\<open>effects.shake\<close> is \<open>effects Shake\<close> here, the number
  \<^verbatim>\<open>intensities.shake\<close> is \<open>intensities Shake\<close>.
\<close>

datatype EffectKind =
    Shake | Glitch | Vhs | Cctv | Scanlines | Chromatic | Bloom
  | FilmGrain | Pixelate | Strobe | Vignette | HueShift | Letterbox

type_synonym EffectConfig = "EffectKind \<Rightarrow> bool"

type_synonym EffectIntensities = "EffectKind \<Rightarrow> number"

record TextLayer =
  layerId :: string
  layerText :: string
  layerX :: number
  layerY :: number
  layerSize :: number
  layerColor :: string
  layerFont :: string

section \<open>The drawing surface\<close>

text \<open>
  The renderer only writes to the 2D context.  A frame is modelled by the sequence of
  context commands it issues: property assignments and method calls, in order, with
  their arguments.  Template strings are kept structured: \<open>Rgba r g b a\<close> is
  \<^verbatim>\<open>`rgba(r,g,b,a)`\<close>, \<open>FontBold s f\<close> is \<^verbatim>\<open>`bold ${s}px ${f}, sans-serif`\<close>.
\<close>

datatype colour = Css string | Rgba number number number number

datatype style =
    Solid colour
  | RadialGradient number number number number number number "(number \<times> colour) list"
  | LinearGradient number number number number "(number \<times> colour) list"

datatype font = FontBold number string | FontLiteral string

datatype filter = FilterNone | Blur number | HueRotate number

datatype drawable =
    ImageEl string
  | VideoEl string number
  | CanvasEl
  | TempCanvasEl

datatype canvas_op =
    SetGlobalCompositeOperation string
  | SetFillStyle style
  | SetStrokeStyle style
  | SetGlobalAlpha number
  | SetShadowBlur number
  | SetShadowColor colour
  | SetTextAlign string
  | SetFont font
  | SetFilter filter
  | SetLineWidth number
  | SetLineJoin string
  | SetImageSmoothingEnabled bool
  | Save
  | Restore
  | Translate number number
  | Rotate number
  | Scale number number
  | FillRect number number number number
  | ClearRect number number number number
  | RoundRect number number number number number
  | DrawImage3 drawable number number
  | DrawImage5 drawable number number number number
  | DrawImage9 drawable number number number number number number number number
  | CreateTempCanvas int int
  | TempDrawImage5 drawable number number number number
  | BeginPath
  | ClosePath
  | MoveTo number number
  | LineTo number number
  | Arc number number number number number
  | Ellipse number number number number number number number
  | Stroke
  | Fill
  | Clip
  | FillText string number number
  | GetImageData number number number number
  | AddNoise int number
  | PutImageData number number

text \<open>
  What a frame reads from outside its arguments: \<^verbatim>\<open>Math.random()\<close> and the clock.
  The random source is a stream with a position; every call of \<^verbatim>\<open>Math.random()\<close>
  returns the value at the position and advances it.  \<open>dateNow\<close> is \<^verbatim>\<open>Date.now()\<close>,
  \<open>dateStamp\<close> is the string \<^verbatim>\<open>new Date().toLocaleString().toUpperCase()\<close>.
\<close>

record ambient =
  randoms :: "nat \<Rightarrow> number"
  rpos :: nat
  dateNow :: number
  dateStamp :: string

definition mathRandom :: "ambient \<Rightarrow> number \<times> ambient" where
  "mathRandom a = (randoms a (rpos a), a\<lparr>rpos := Suc (rpos a)\<rparr>)"

section \<open>Particle system\<close>

text \<open>
  \<^verbatim>\<open>drawParticles\<close>: four loops, one per sub-population.  Each function below is
  the body of one loop for the particle index \<open>i\<close>, the commands it issues.
\<close>

definition risingParticle ::
  "number \<Rightarrow> number \<Rightarrow> number \<Rightarrow> number \<Rightarrow> string \<Rightarrow> int \<Rightarrow> canvas_op list" where
  "risingParticle w h time normBass color i =
     (let seed = real_of_int i * 127.1;
          xBase = jsMod (jsMod (sin seed * 10000) w + w) w;
          drift = sin (time * 2 + seed) * 30;
          x = xBase + drift;
          speed = 20 + real_of_int (i mod 7) * 15;
          y = h - jsMod (time * speed + seed * 10) (h + 100);
          sz = 2 + real_of_int (i mod 4) + normBass * 3;
          twinkle = 0.5 + sin (time * 8 + seed) * 0.3
      in [BeginPath,
          SetFillStyle (Solid (Css color)),
          SetShadowBlur (15 + normBass * 10),
          SetShadowColor (Css color),
          SetGlobalAlpha (twinkle * (0.4 + normBass * 0.4)),
          Arc x y sz 0 (pi * 2),
          Fill])"

definition burstParticle ::
  "number \<Rightarrow> number \<Rightarrow> number \<Rightarrow> number \<Rightarrow> string \<Rightarrow> int \<Rightarrow> int \<Rightarrow> canvas_op list" where
  "burstParticle cx cy time normBass color burstCount i =
     (let angle = (real_of_int i / real_of_int burstCount) * pi * 2 + time * 0.3;
          seed = real_of_int i * 234.5;
          burstPhase = jsMod (time * 1.5 + seed * 0.01) 3;
          burstProgress = burstPhase / 3;
          maxDist = 300 + normBass * 200;
          dist = burstProgress * maxDist;
          x = cx + cos angle * dist;
          y = cy + sin angle * dist;
          sz = (1 - burstProgress) * (3 + normBass * 4);
          alpha = (1 - burstProgress) * (0.6 + normBass * 0.4)
      in if sz > 0.5 \<and> alpha > 0.1
         then [BeginPath,
               SetFillStyle (Solid (Css color)),
               SetShadowBlur 10,
               SetShadowColor (Css color),
               SetGlobalAlpha alpha,
               Arc x y sz 0 (pi * 2),
               Fill]
         else [])"

definition orbitalParticle ::
  "number \<Rightarrow> number \<Rightarrow> number \<Rightarrow> number \<Rightarrow> string \<Rightarrow> int \<Rightarrow> int \<Rightarrow> canvas_op list" where
  "orbitalParticle cx cy time normBass color orbitalCount i =
     (let orbitRadius = 150 + real_of_int (i mod 4) * 80 + normBass * 50;
          speed = (if i mod 2 = 0 then 1 else -1) * (0.8 + real_of_int (i mod 3) * 0.3);
          angle = time * speed + (real_of_int i / real_of_int orbitalCount) * pi * 2;
          x = cx + cos angle * orbitRadius;
          y = cy + sin angle * orbitRadius;
          sparkle = 0.5 + sin (time * 12 + real_of_int i * 5) * 0.5;
          sz = 2 + sparkle * 2 + normBass * 2
      in [BeginPath,
          SetFillStyle (Solid (Css ''#fff'')),
          SetShadowBlur 20,
          SetShadowColor (Css color),
          SetGlobalAlpha (sparkle * 0.8),
          Arc x y sz 0 (pi * 2),
          Fill])"

definition dustParticle ::
  "number \<Rightarrow> number \<Rightarrow> number \<Rightarrow> number \<Rightarrow> int \<Rightarrow> canvas_op list" where
  "dustParticle w h time normBass i =
     (let seed = real_of_int i * 567.8;
          x = jsMod (jsMod (sin seed * 10000) w + w) w;
          y = jsMod (jsMod (cos seed * 10000) h + h) h;
          drift = sin (time + seed) * 2;
          sz = 1 + sin (time * 3 + seed) * 0.5
      in [BeginPath,
          SetFillStyle (Solid (Css ''#fff'')),
          SetShadowBlur 5,
          SetShadowColor (Css ''#fff''),
          SetGlobalAlpha (0.2 + normBass * 0.2),
          Arc (x + drift) y sz 0 (pi * 2),
          Fill])"

text \<open>
  A loop \<^verbatim>\<open>for (let i = 0; i < n; i++) body(i)\<close> over the context: the commands issued
  so far are the accumulator.
\<close>

function particleLoop :: "(int \<Rightarrow> canvas_op list) \<Rightarrow> int \<Rightarrow> int \<Rightarrow> canvas_op list \<Rightarrow> canvas_op list" where
  "particleLoop body n i ops =
     (if i < n then particleLoop body n (i + 1) (ops @ body i) else ops)"
  by pat_completeness auto
termination
  by (relation "measure (\<lambda>(body, n, i, ops). nat (n - i))") auto

declare particleLoop.simps [simp del]

definition drawParticles ::
  "number \<Rightarrow> number \<Rightarrow> number \<Rightarrow> number \<Rightarrow> number \<Rightarrow> string \<Rightarrow> ambient \<Rightarrow> canvas_op list \<times> ambient" where
  "drawParticles w h time bass count color amb =
     (let normBass = bass / 255;
          cx = w / 2;
          cy = h / 2;
          risingCount = \<lfloor>count * 0.4\<rfloor>;
          ops1 = particleLoop (risingParticle w h time normBass color) risingCount 0 [];
          burstCount = \<lfloor>count * 0.35\<rfloor>;
          ops2 = particleLoop (burstParticle cx cy time normBass color burstCount) burstCount 0 ops1;
          orbitalCount = \<lfloor>count * 0.15\<rfloor>;
          ops3 = particleLoop (orbitalParticle cx cy time normBass color orbitalCount) orbitalCount 0 ops2;
          dustCount = \<lfloor>count * 0.1\<rfloor>;
          ops4 = particleLoop (dustParticle w h time normBass) dustCount 0 ops3
      in (ops4 @ [SetGlobalAlpha 1, SetShadowBlur 0], amb))"

section \<open>Bass level and pulse\<close>

text \<open>\<^verbatim>\<open>for (let i = 0; i < 20; i++) bass += dataArray[i]\<close>, in both renderers.\<close>

function bassLoop :: "Uint8Array \<Rightarrow> int \<Rightarrow> number \<Rightarrow> number" where
  "bassLoop dataArray i bass =
     (if i < 20 then bassLoop dataArray (i + 1) (bass + real_of_int (dataArray ! nat i)) else bass)"
  by pat_completeness auto
termination
  by (relation "measure (\<lambda>(dataArray, i, bass). nat (20 - i))") auto

declare bassLoop.simps [simp del]

text \<open>The offline renderer, ``Calculate bass and pulse''.\<close>

definition renderOffline_bass :: "Uint8Array \<Rightarrow> number" where
  "renderOffline_bass dataArray = bassLoop dataArray 0 0 / 20"

definition renderOffline_normBass :: "Uint8Array \<Rightarrow> number" where
  "renderOffline_normBass dataArray = renderOffline_bass dataArray / 255"

definition renderOffline_pulse :: "Uint8Array \<Rightarrow> number" where
  "renderOffline_pulse dataArray = 1 + renderOffline_normBass dataArray * 0.15"

text \<open>The live renderer, ``Bass Calc''.\<close>

definition renderLoop_bass :: "Uint8Array \<Rightarrow> number" where
  "renderLoop_bass dataArray = bassLoop dataArray 0 0 / 20"

definition renderLoop_normBass :: "Uint8Array \<Rightarrow> number" where
  "renderLoop_normBass dataArray = renderLoop_bass dataArray / 255"

definition renderLoop_pulse :: "Uint8Array \<Rightarrow> number" where
  "renderLoop_pulse dataArray = 1 + renderLoop_normBass dataArray * 0.15"

text \<open>
  Offline there is no time-domain signal; the renderer makes one up from the bass level:
  \<^verbatim>\<open>timeDomain[i] = 128 + Math.sin(i * 0.1 + time * 10) * 64 * bassLevel\<close>.
\<close>

function timeDomainLoop :: "number \<Rightarrow> number \<Rightarrow> int \<Rightarrow> Uint8Array \<Rightarrow> Uint8Array" where
  "timeDomainLoop time bassLevel i timeDomain =
     (if i < int (length timeDomain)
      then timeDomainLoop time bassLevel (i + 1)
             (timeDomain[nat i :=
                storeUint8 (128 + sin (real_of_int i * 0.1 + time * 10) * 64 * bassLevel)])
      else timeDomain)"
  by pat_completeness auto
termination
  by (relation "measure (\<lambda>(time, bassLevel, i, td). nat (int (length td) - i))") auto

declare timeDomainLoop.simps [simp del]

definition renderOffline_timeDomain :: "Uint8Array \<Rightarrow> number \<Rightarrow> Uint8Array" where
  "renderOffline_timeDomain dataArray time =
     (let bassSum = bassLoop dataArray 0 0;
          bassLevel = bassSum / 20 / 255
      in timeDomainLoop time bassLevel 0 (newUint8Array 1024))"

section \<open>Preset renderer\<close>

text \<open>
  The ten preset functions (\<^verbatim>\<open>drawNCSCircle\<close> \<dots> \<^verbatim>\<open>drawShockwave\<close>) are shared by
  both renderers.  A call is recorded with its actual arguments; what the callee draws is
  a parameter \<open>drawPreset\<close> of the frame functions, any function from the call and the
  ambient state to commands and the new ambient state (\<^verbatim>\<open>drawDigitalRain\<close> calls
  \<^verbatim>\<open>Math.random()\<close>).  The preset functions read nothing else: they only write to the
  context they are given.
\<close>

datatype preset_call =
    DrawNCSCircle number number Uint8Array number number string string
  | DrawLinearBars number number Uint8Array string string
  | DrawDualMirror number number Uint8Array string
  | DrawCenterWave number number Uint8Array number string
  | DrawOrbital number number Uint8Array number string string
  | DrawHexagon number number Uint8Array number number string
  | DrawOscilloscope number number Uint8Array string
  | DrawDigitalRain number number Uint8Array number string
  | DrawShockwave number number number number string

type_synonym preset_renderer = "preset_call \<Rightarrow> ambient \<Rightarrow> canvas_op list \<times> ambient"

section \<open>Offline frame: the body of the frame loop of \<^verbatim>\<open>renderOffline\<close>\<close>

definition renderOffline_clear :: "number \<Rightarrow> number \<Rightarrow> canvas_op list" where
  "renderOffline_clear width height =
     [SetGlobalCompositeOperation ''source-over'',
      SetFillStyle (Solid (Css ''#000'')),
      FillRect 0 0 width height]"

text \<open>
  The background source: the preloaded image, or the video when one was loaded, sought
  to \<^verbatim>\<open>time % (bgVideo.duration || 1)\<close>.
\<close>

definition renderOffline_bgSource ::
  "string option \<Rightarrow> (string \<times> number) option \<Rightarrow> number \<Rightarrow> drawable option" where
  "renderOffline_bgSource bgImage bgVideo time =
     (case bgVideo of
        Some (src, dur) \<Rightarrow> Some (VideoEl src (jsMod time (if dur = 0 then 1 else dur)))
      | None \<Rightarrow> map_option ImageEl bgImage)"

definition renderOffline_background ::
  "VisualizerConfig \<Rightarrow> EffectConfig \<Rightarrow> EffectIntensities \<Rightarrow> number \<Rightarrow> number \<Rightarrow>
   number \<Rightarrow> number \<Rightarrow> drawable option \<Rightarrow> ambient \<Rightarrow> canvas_op list \<times> ambient" where
  "renderOffline_background currentConfig currentEffects currentIntensities width height
     time normBass bgSource amb =
     (case bgSource of
        None \<Rightarrow> ([], amb)
      | Some src \<Rightarrow>
          (let centerX = width / 2;
               centerY = height / 2;
               (shakeOps, amb1) =
                 (if currentEffects Shake \<and> normBass > 0.6 - currentIntensities Shake * 0.3
                  then (let magnitude = currentIntensities Shake * 50;
                            (r1, a1) = mathRandom amb;
                            shakeX = (r1 - 0.5) * magnitude * normBass;
                            (r2, a2) = mathRandom a1;
                            shakeY = (r2 - 0.5) * magnitude * normBass
                        in ([Translate shakeX shakeY], a2))
                  else ([], amb));
               zoom = 1 + sin (time * 0.5) * 0.05
           in ([Save, SetGlobalAlpha (1 - bgDim currentConfig)] @ shakeOps @
               [Translate centerX centerY,
                Scale zoom zoom,
                DrawImage5 src (- width / 2) (- height / 2) width height,
                Restore], amb1)))"

definition renderOffline_presetCall ::
  "VisualizerConfig \<Rightarrow> number \<Rightarrow> number \<Rightarrow> Uint8Array \<Rightarrow> Uint8Array \<Rightarrow>
   number \<Rightarrow> number \<Rightarrow> number \<Rightarrow> preset_call option" where
  "renderOffline_presetCall currentConfig width height dataArray timeDomain bass pulse time =
     (let centerX = width / 2;
          centerY = height / 2;
          c1 = primaryColor currentConfig;
          c2 = secondaryColor currentConfig
      in case preset currentConfig of
           NCS_Circle \<Rightarrow> Some (DrawNCSCircle centerX centerY dataArray pulse time c1 c2)
         | Linear_Bars \<Rightarrow> Some (DrawLinearBars width height dataArray c1 c2)
         | Dual_Mirror \<Rightarrow> Some (DrawDualMirror width height dataArray c1)
         | Center_Wave \<Rightarrow> Some (DrawCenterWave centerX centerY dataArray time c1)
         | Orbital \<Rightarrow> Some (DrawOrbital centerX centerY dataArray time c1 c2)
         | Hexagon \<Rightarrow> Some (DrawHexagon centerX centerY dataArray pulse time c1)
         | Oscilloscope \<Rightarrow> Some (DrawOscilloscope width height timeDomain c1)
         | Digital_Rain \<Rightarrow> Some (DrawDigitalRain width height dataArray time c1)
         | Shockwave \<Rightarrow> Some (DrawShockwave centerX centerY bass time c1)
         | Minimal \<Rightarrow> None)"

definition renderOffline_preset ::
  "preset_renderer \<Rightarrow> EffectConfig \<Rightarrow> EffectIntensities \<Rightarrow> number \<Rightarrow>
   preset_call option \<Rightarrow> ambient \<Rightarrow> canvas_op list \<times> ambient" where
  "renderOffline_preset drawPreset currentEffects currentIntensities normBass call amb =
     (let (shakeOps, amb1) =
            (if currentEffects Shake \<and> normBass > 0.6
             then (let magnitude = currentIntensities Shake * 30;
                       (r1, a1) = mathRandom amb;
                       shakeX = (r1 - 0.5) * magnitude * normBass;
                       (r2, a2) = mathRandom a1;
                       shakeY = (r2 - 0.5) * magnitude * normBass
                   in ([Translate shakeX shakeY], a2))
             else ([], amb));
          (presetOps, amb2) =
            (case call of None \<Rightarrow> ([], amb1) | Some c \<Rightarrow> drawPreset c amb1)
      in ([Save] @ shakeOps @ presetOps, amb2))"

text \<open>The album-art inlay, drawn inline from the preloaded image, and only when there is one.\<close>

definition renderOffline_albumArt ::
  "VisualizerConfig \<Rightarrow> number \<Rightarrow> number \<Rightarrow> number \<Rightarrow> string option \<Rightarrow> canvas_op list" where
  "renderOffline_albumArt currentConfig width height pulse albumImage =
     (if preset currentConfig \<in> set [NCS_Circle, Hexagon, Orbital, Shockwave]
      then (case albumImage of
              Some img \<Rightarrow>
                [Save,
                 Translate (width / 2) (height / 2),
                 Scale pulse pulse,
                 SetShadowBlur 40,
                 SetShadowColor (Css (primaryColor currentConfig)),
                 BeginPath,
                 Arc 0 0 150 0 (pi * 2),
                 ClosePath,
                 SetLineWidth 5,
                 SetStrokeStyle (Solid (Css ''white'')),
                 Stroke,
                 Clip,
                 DrawImage5 (ImageEl img) (-150) (-150) 300 300,
                 Restore]
            | None \<Rightarrow> [])
      else [])"

definition renderOffline_pixelate ::
  "EffectConfig \<Rightarrow> EffectIntensities \<Rightarrow> number \<Rightarrow> number \<Rightarrow> canvas_op list" where
  "renderOffline_pixelate currentEffects currentIntensities width height =
     (if currentEffects Pixelate
      then (let pixelSize = max 4 \<lfloor>16 * currentIntensities Pixelate\<rfloor>;
                smallW = \<lfloor>width / real_of_int pixelSize\<rfloor>;
                smallH = \<lfloor>height / real_of_int pixelSize\<rfloor>
            in [SetImageSmoothingEnabled False,
                CreateTempCanvas smallW smallH,
                TempDrawImage5 CanvasEl 0 0 (real_of_int smallW) (real_of_int smallH),
                ClearRect 0 0 width height,
                DrawImage9 TempCanvasEl 0 0 (real_of_int smallW) (real_of_int smallH) 0 0 width height,
                SetImageSmoothingEnabled True])
      else [])"

definition renderOffline_textLayer ::
  "VisualizerConfig \<Rightarrow> number \<Rightarrow> number \<Rightarrow> number \<Rightarrow> TextLayer \<Rightarrow> canvas_op list" where
  "renderOffline_textLayer currentConfig width height pulse layer =
     (let dynamicSize =
            (if layerId layer = ''1'' \<and> preset currentConfig = Minimal
             then layerSize layer * pulse else layerSize layer);
          xPos = (layerX layer / 100) * width;
          yPos = (layerY layer / 100) * height
      in [SetFillStyle (Solid (Css (layerColor layer))),
          SetFont (FontBold dynamicSize (layerFont layer)),
          FillText (layerText layer) xPos yPos])"

definition renderOffline_texts ::
  "VisualizerConfig \<Rightarrow> TextLayer list \<Rightarrow> number \<Rightarrow> number \<Rightarrow> number \<Rightarrow> canvas_op list" where
  "renderOffline_texts currentConfig currentTexts width height pulse =
     [SetShadowBlur 10, SetShadowColor (Css ''black''), SetTextAlign ''center''] @
     concat (map (renderOffline_textLayer currentConfig width height pulse) currentTexts) @
     [Restore]"

text \<open>\<^verbatim>\<open>for (let i = 0; i < height; i += 4) ctx.fillRect(0, i, width, 2)\<close>.\<close>

function scanlineLoop :: "number \<Rightarrow> number \<Rightarrow> int \<Rightarrow> canvas_op list \<Rightarrow> canvas_op list" where
  "scanlineLoop width height i ops =
     (if real_of_int i < height
      then scanlineLoop width height (i + 4) (ops @ [FillRect 0 (real_of_int i) width 2])
      else ops)"
  by pat_completeness auto
termination
  by (relation "measure (\<lambda>(width, height, i, ops). nat (\<lceil>height\<rceil> - i))")
     (auto simp: less_ceiling_iff intro: zless_nat_conj [THEN iffD2])

declare scanlineLoop.simps [simp del]

definition renderOffline_scanlines ::
  "EffectConfig \<Rightarrow> EffectIntensities \<Rightarrow> number \<Rightarrow> number \<Rightarrow> canvas_op list" where
  "renderOffline_scanlines currentEffects currentIntensities width height =
     (if currentEffects Scanlines \<or> currentEffects Cctv
      then scanlineLoop width height 0
             [SetFillStyle (Solid (Rgba 0 0 0 (currentIntensities Scanlines * 0.8)))]
      else [])"

text \<open>
  VHS colour shift and chromatic aberration.  The condition is
  \<^verbatim>\<open>vhs || chromatic || (glitch && Math.random() > 1 - intensities.glitch)\<close>:
  \<^verbatim>\<open>Math.random()\<close> is called only when the first two flags are off and the third is on.
\<close>

definition renderOffline_vhs ::
  "EffectConfig \<Rightarrow> EffectIntensities \<Rightarrow> number \<Rightarrow> number \<Rightarrow> number \<Rightarrow>
   ambient \<Rightarrow> canvas_op list \<times> ambient" where
  "renderOffline_vhs currentEffects currentIntensities width height normBass amb =
     (let (cond, amb1) =
            (if currentEffects Vhs then (True, amb)
             else if currentEffects Chromatic then (True, amb)
             else if currentEffects Glitch
                  then (let (r, a1) = mathRandom amb in (r > 1 - currentIntensities Glitch, a1))
                  else (False, amb))
      in if cond
         then (let intensity = (if currentEffects Vhs then currentIntensities Vhs
                                else currentIntensities Chromatic);
                   offset = (10 * intensity) * normBass
               in ([SetGlobalCompositeOperation ''screen'',
                    SetFillStyle (Solid (Rgba 255 0 0 (0.2 * intensity))),
                    FillRect (- offset) 0 width height,
                    SetFillStyle (Solid (Rgba 0 0 255 (0.2 * intensity))),
                    FillRect offset 0 width height,
                    SetGlobalCompositeOperation ''source-over''], amb1))
         else ([], amb1))"

text \<open>Glitch, offline: a random coloured block.\<close>

definition renderOffline_glitch ::
  "VisualizerConfig \<Rightarrow> EffectConfig \<Rightarrow> EffectIntensities \<Rightarrow> number \<Rightarrow> number \<Rightarrow>
   ambient \<Rightarrow> canvas_op list \<times> ambient" where
  "renderOffline_glitch currentConfig currentEffects currentIntensities width height amb =
     (if currentEffects Glitch
      then (let (r0, a0) = mathRandom amb
            in if r0 > 1 - currentIntensities Glitch
               then (let (r1, a1) = mathRandom a0;
                         (r2, a2) = mathRandom a1;
                         (r3, a3) = mathRandom a2;
                         (r4, a4) = mathRandom a3
                     in ([SetFillStyle (Solid (Css (if r1 > 0.5 then primaryColor currentConfig
                                                     else ''#fff''))),
                          FillRect (r2 * width) (r3 * height) (r4 * 200) 4], a4))
               else ([], a0))
      else ([], amb))"

text \<open>CCTV, offline: green tint and vignette.\<close>

definition renderOffline_cctv ::
  "EffectConfig \<Rightarrow> EffectIntensities \<Rightarrow> number \<Rightarrow> number \<Rightarrow> canvas_op list" where
  "renderOffline_cctv currentEffects currentIntensities width height =
     (if currentEffects Cctv
      then (let intensity = currentIntensities Cctv;
                centerX = width / 2;
                centerY = height / 2;
                grad = RadialGradient centerX centerY (height * 0.4) centerX centerY (height * 0.9)
                         [(0, Css ''transparent''), (1, Css ''black'')]
            in [SetGlobalCompositeOperation ''overlay'',
                SetFillStyle (Solid (Rgba 0 50 0 (0.4 * intensity))),
                FillRect 0 0 width height,
                SetGlobalCompositeOperation ''multiply'',
                SetFillStyle grad,
                FillRect 0 0 width height,
                SetGlobalCompositeOperation ''source-over''])
      else [])"

definition renderOffline_bloom ::
  "EffectConfig \<Rightarrow> EffectIntensities \<Rightarrow> canvas_op list" where
  "renderOffline_bloom currentEffects currentIntensities =
     (if currentEffects Bloom
      then (let intensity = currentIntensities Bloom
            in [SetGlobalCompositeOperation ''screen'',
                SetFilter (Blur (15 * intensity)),
                SetGlobalAlpha (0.4 * intensity),
                DrawImage3 CanvasEl 0 0,
                SetFilter FilterNone,
                SetGlobalAlpha 1,
                SetGlobalCompositeOperation ''source-over''])
      else [])"

text \<open>
  Film grain, offline: \<^verbatim>\<open>for (let i = 0; i < data.length; i += 16)\<close>, one call of
  \<^verbatim>\<open>Math.random()\<close> per step; \<open>AddNoise i noise\<close> is the three assignments
  \<^verbatim>\<open>data[i] += noise; data[i + 1] += noise; data[i + 2] += noise\<close>.
\<close>

function grainLoop16 :: "int \<Rightarrow> number \<Rightarrow> int \<Rightarrow> canvas_op list \<Rightarrow> ambient \<Rightarrow> canvas_op list \<times> ambient" where
  "grainLoop16 dataLength grainAmount i ops amb =
     (if i < dataLength
      then (let (r, a1) = mathRandom amb;
                noise = (r - 0.5) * grainAmount
            in grainLoop16 dataLength grainAmount (i + 16) (ops @ [AddNoise i noise]) a1)
      else (ops, amb))"
  by pat_completeness auto
termination
  by (relation "measure (\<lambda>(dataLength, grainAmount, i, ops, amb). nat (dataLength - i))") auto

declare grainLoop16.simps [simp del]

definition renderOffline_filmGrain ::
  "EffectConfig \<Rightarrow> EffectIntensities \<Rightarrow> number \<Rightarrow> number \<Rightarrow> ambient \<Rightarrow> canvas_op list \<times> ambient" where
  "renderOffline_filmGrain currentEffects currentIntensities width height amb =
     (if currentEffects FilmGrain
      then (let intensity = currentIntensities FilmGrain;
                dataLength = \<lfloor>width\<rfloor> * \<lfloor>height\<rfloor> * 4;
                grainAmount = intensity * 50;
                (ops, amb1) = grainLoop16 dataLength grainAmount 0 [GetImageData 0 0 width height] amb
            in (ops @ [PutImageData 0 0], amb1))
      else ([], amb))"

definition renderOffline_strobe ::
  "EffectConfig \<Rightarrow> EffectIntensities \<Rightarrow> number \<Rightarrow> number \<Rightarrow> number \<Rightarrow> canvas_op list" where
  "renderOffline_strobe currentEffects currentIntensities width height normBass =
     (if currentEffects Strobe \<and> normBass > 0.7 - currentIntensities Strobe * 0.3
      then [SetGlobalCompositeOperation ''screen'',
            SetFillStyle (Solid (Rgba 255 255 255 (currentIntensities Strobe * normBass * 0.8))),
            FillRect 0 0 width height,
            SetGlobalCompositeOperation ''source-over'']
      else [])"

definition renderOffline_vignette ::
  "EffectConfig \<Rightarrow> EffectIntensities \<Rightarrow> number \<Rightarrow> number \<Rightarrow> canvas_op list" where
  "renderOffline_vignette currentEffects currentIntensities width height =
     (if currentEffects Vignette
      then (let intensity = currentIntensities Vignette;
                centerX = width / 2;
                centerY = height / 2;
                grad = RadialGradient centerX centerY (height * 0.3) centerX centerY (height * 0.8)
                         [(0, Css ''transparent''), (1, Rgba 0 0 0 (0.8 * intensity))]
            in [SetFillStyle grad, FillRect 0 0 width height])
      else [])"

definition renderOffline_hueShift ::
  "EffectConfig \<Rightarrow> EffectIntensities \<Rightarrow> number \<Rightarrow> canvas_op list" where
  "renderOffline_hueShift currentEffects currentIntensities normBass =
     (if currentEffects HueShift
      then (let hueRotation = currentIntensities HueShift * 360 * (1 + normBass * 0.5)
            in [SetFilter (HueRotate hueRotation), DrawImage3 CanvasEl 0 0, SetFilter FilterNone])
      else [])"

definition renderOffline_letterbox ::
  "EffectConfig \<Rightarrow> EffectIntensities \<Rightarrow> number \<Rightarrow> number \<Rightarrow> canvas_op list" where
  "renderOffline_letterbox currentEffects currentIntensities width height =
     (if currentEffects Letterbox
      then (let barHeight = height * 0.12 * currentIntensities Letterbox
            in [SetFillStyle (Solid (Css ''black'')),
                FillRect 0 0 width barHeight,
                FillRect 0 (height - barHeight) width barHeight])
      else [])"

text \<open>
  The inputs of the frame loop that stay fixed over an export: the four values read
  from the refs before the loop (\<^verbatim>\<open>currentConfig\<close>, \<^verbatim>\<open>currentEffects\<close>,
  \<^verbatim>\<open>currentIntensities\<close>, \<^verbatim>\<open>currentTexts\<close>) and the assets loaded before it.
\<close>

record snapshot =
  snapConfig :: VisualizerConfig
  snapEffects :: EffectConfig
  snapIntensities :: EffectIntensities
  snapTexts :: "TextLayer list"

record offline_assets =
  bgImage :: "string option"
  bgVideo :: "(string \<times> number) option"
  albumImage :: "string option"

text \<open>
  The post-processing section of the offline frame, from ``Apply post-processing
  effects'' to the letterbox.
\<close>

definition renderOffline_postProcess ::
  "snapshot \<Rightarrow> number \<Rightarrow> number \<Rightarrow> number \<Rightarrow> ambient \<Rightarrow> canvas_op list \<times> ambient" where
  "renderOffline_postProcess snap width height normBass amb =
     (let cfg = snapConfig snap; eff = snapEffects snap; ints = snapIntensities snap;
          scan = renderOffline_scanlines eff ints width height;
          (vhsOps, amb1) = renderOffline_vhs eff ints width height normBass amb;
          (glitchOps, amb2) = renderOffline_glitch cfg eff ints width height amb1;
          cctvOps = renderOffline_cctv eff ints width height;
          bloomOps = renderOffline_bloom eff ints;
          (grainOps, amb3) = renderOffline_filmGrain eff ints width height amb2;
          strobeOps = renderOffline_strobe eff ints width height normBass;
          vignetteOps = renderOffline_vignette eff ints width height;
          hueOps = renderOffline_hueShift eff ints normBass;
          letterboxOps = renderOffline_letterbox eff ints width height
      in (scan @ vhsOps @ glitchOps @ cctvOps @ bloomOps @ grainOps @ strobeOps @
          vignetteOps @ hueOps @ letterboxOps, amb3))"

text \<open>
  The first part of an iteration of the frame loop: levels, clear, background, preset,
  particles, album art, pixelate and text layers, up to the \<^verbatim>\<open>ctx.restore()\<close> after
  the text layers.
\<close>

definition renderOffline_core ::
  "preset_renderer \<Rightarrow> snapshot \<Rightarrow> offline_assets \<Rightarrow> number \<Rightarrow> number \<Rightarrow>
   Uint8Array \<Rightarrow> number \<Rightarrow> ambient \<Rightarrow> canvas_op list \<times> ambient" where
  "renderOffline_core drawPreset snap assets width height dataArray time amb =
     (let cfg = snapConfig snap; eff = snapEffects snap; ints = snapIntensities snap;
          timeDomain = renderOffline_timeDomain dataArray time;
          bass = renderOffline_bass dataArray;
          normBass = renderOffline_normBass dataArray;
          pulse = renderOffline_pulse dataArray;
          clearOps = renderOffline_clear width height;
          bgSource = renderOffline_bgSource (bgImage assets) (bgVideo assets) time;
          (bgOps, amb1) = renderOffline_background cfg eff ints width height time normBass bgSource amb;
          call = renderOffline_presetCall cfg width height dataArray timeDomain bass pulse time;
          (presetOps, amb2) = renderOffline_preset drawPreset eff ints normBass call amb1;
          (particleOps, amb3) =
            drawParticles width height time bass (particleCount cfg) (primaryColor cfg) amb2;
          albumOps = renderOffline_albumArt cfg width height pulse (albumImage assets);
          pixelateOps = renderOffline_pixelate eff ints width height;
          textOps = renderOffline_texts cfg (snapTexts snap) width height pulse
      in (clearOps @ bgOps @ presetOps @ particleOps @ albumOps @ pixelateOps @ textOps, amb3))"

text \<open>
  One iteration of the frame loop, up to the capture: the commands issued to the export
  canvas for the spectrum \<open>dataArray\<close> at \<open>time\<close>.
\<close>

definition renderOffline_frame ::
  "preset_renderer \<Rightarrow> snapshot \<Rightarrow> offline_assets \<Rightarrow> number \<Rightarrow> number \<Rightarrow>
   Uint8Array \<Rightarrow> number \<Rightarrow> ambient \<Rightarrow> canvas_op list \<times> ambient" where
  "renderOffline_frame drawPreset snap assets width height dataArray time amb =
     (let (coreOps, amb3) = renderOffline_core drawPreset snap assets width height dataArray time amb;
          (postOps, amb4) =
            renderOffline_postProcess snap width height (renderOffline_normBass dataArray) amb3
      in (coreOps @ postOps, amb4))"

section \<open>Live frame: the body of \<^verbatim>\<open>renderLoop\<close>\<close>

text \<open>
  What the live loop finds in its refs and in the page when a frame is due: the
  background video element (source, \<^verbatim>\<open>readyState\<close>, current time) and image, the
  custom album art and the song's cover, the preloaded custom album-art image with its
  \<^verbatim>\<open>complete\<close> flag, whether a fresh image element for a URL is complete at once, and
  \<^verbatim>\<open>encodeURIComponent\<close>.
\<close>

record live_assets =
  bgVideoRef :: "(string \<times> number \<times> number) option"
  bgImageRef :: "string option"
  customAlbumArt :: "string option"
  coverUrl :: string
  customAlbumArtImageRef :: "(string \<times> bool) option"
  imageComplete :: "string \<Rightarrow> bool"
  encodeURIComponent :: "string \<Rightarrow> string"

definition renderLoop_clear :: "number \<Rightarrow> number \<Rightarrow> canvas_op list" where
  "renderLoop_clear width height =
     [SetGlobalCompositeOperation ''source-over'',
      SetFillStyle (Solid (Css ''#000'')),
      FillRect 0 0 width height]"

definition renderLoop_bgSource :: "live_assets \<Rightarrow> drawable option" where
  "renderLoop_bgSource assets =
     (case bgVideoRef assets of
        Some (src, readyState, currentTime) \<Rightarrow>
          if readyState \<ge> 2 then Some (VideoEl src currentTime)
          else map_option ImageEl (bgImageRef assets)
      | None \<Rightarrow> map_option ImageEl (bgImageRef assets))"

definition renderLoop_background ::
  "VisualizerConfig \<Rightarrow> EffectConfig \<Rightarrow> EffectIntensities \<Rightarrow> number \<Rightarrow> number \<Rightarrow>
   number \<Rightarrow> number \<Rightarrow> drawable option \<Rightarrow> ambient \<Rightarrow> canvas_op list \<times> ambient" where
  "renderLoop_background currentConfig currentEffects currentIntensities width height
     time normBass bgSource amb =
     (case bgSource of
        None \<Rightarrow> ([], amb)
      | Some src \<Rightarrow>
          (let centerX = width / 2;
               centerY = height / 2;
               (shakeOps, amb1) =
                 (if currentEffects Shake \<and> normBass > 0.6 - currentIntensities Shake * 0.3
                  then (let magnitude = currentIntensities Shake * 50;
                            (r1, a1) = mathRandom amb;
                            shakeX = (r1 - 0.5) * magnitude * normBass;
                            (r2, a2) = mathRandom a1;
                            shakeY = (r2 - 0.5) * magnitude * normBass
                        in ([Translate shakeX shakeY], a2))
                  else ([], amb));
               zoom = 1 + sin (time * 0.5) * 0.05
           in ([Save, SetGlobalAlpha (1 - bgDim currentConfig)] @ shakeOps @
               [Translate centerX centerY,
                Scale zoom zoom,
                DrawImage5 src (- width / 2) (- height / 2) width height,
                Restore], amb1)))"

definition renderLoop_presetCall ::
  "VisualizerConfig \<Rightarrow> number \<Rightarrow> number \<Rightarrow> Uint8Array \<Rightarrow> Uint8Array \<Rightarrow>
   number \<Rightarrow> number \<Rightarrow> number \<Rightarrow> preset_call option" where
  "renderLoop_presetCall currentConfig width height dataArray timeDomain bass pulse time =
     (let centerX = width / 2;
          centerY = height / 2;
          c1 = primaryColor currentConfig;
          c2 = secondaryColor currentConfig
      in case preset currentConfig of
           NCS_Circle \<Rightarrow> Some (DrawNCSCircle centerX centerY dataArray pulse time c1 c2)
         | Linear_Bars \<Rightarrow> Some (DrawLinearBars width height dataArray c1 c2)
         | Dual_Mirror \<Rightarrow> Some (DrawDualMirror width height dataArray c1)
         | Center_Wave \<Rightarrow> Some (DrawCenterWave centerX centerY dataArray time c1)
         | Orbital \<Rightarrow> Some (DrawOrbital centerX centerY dataArray time c1 c2)
         | Hexagon \<Rightarrow> Some (DrawHexagon centerX centerY dataArray pulse time c1)
         | Oscilloscope \<Rightarrow> Some (DrawOscilloscope width height timeDomain c1)
         | Digital_Rain \<Rightarrow> Some (DrawDigitalRain width height dataArray time c1)
         | Shockwave \<Rightarrow> Some (DrawShockwave centerX centerY bass time c1)
         | Minimal \<Rightarrow> None)"

definition renderLoop_preset ::
  "preset_renderer \<Rightarrow> EffectConfig \<Rightarrow> EffectIntensities \<Rightarrow> number \<Rightarrow>
   preset_call option \<Rightarrow> ambient \<Rightarrow> canvas_op list \<times> ambient" where
  "renderLoop_preset drawPreset currentEffects currentIntensities normBass call amb =
     (let (shakeOps, amb1) =
            (if currentEffects Shake \<and> normBass > 0.6
             then (let magnitude = currentIntensities Shake * 30;
                       (r1, a1) = mathRandom amb;
                       shakeX = (r1 - 0.5) * magnitude * normBass;
                       (r2, a2) = mathRandom a1;
                       shakeY = (r2 - 0.5) * magnitude * normBass
                   in ([Translate shakeX shakeY], a2))
             else ([], amb));
          (presetOps, amb2) =
            (case call of None \<Rightarrow> ([], amb1) | Some c \<Rightarrow> drawPreset c amb1)
      in ([Save] @ shakeOps @ presetOps, amb2))"

text \<open>\<^verbatim>\<open>drawAlbumArt\<close>, called by the live loop only.\<close>

definition drawAlbumArt ::
  "number \<Rightarrow> number \<Rightarrow> number \<Rightarrow> string \<Rightarrow> string \<Rightarrow> (string \<times> bool) option \<Rightarrow>
   (string \<Rightarrow> bool) \<Rightarrow> canvas_op list" where
  "drawAlbumArt cx cy pulse url borderColor preloadedImage isComplete =
     [Save,
      Translate cx cy,
      Scale pulse pulse,
      SetShadowBlur 40,
      SetShadowColor (Css borderColor),
      BeginPath,
      Arc 0 0 150 0 (pi * 2),
      ClosePath,
      SetLineWidth 5,
      SetStrokeStyle (Solid (Css ''white'')),
      Stroke,
      Clip] @
     (case (case preloadedImage of Some (img, True) \<Rightarrow> Some img | _ \<Rightarrow> None) of
        Some img \<Rightarrow> [DrawImage5 (ImageEl img) (-150) (-150) 300 300]
      | None \<Rightarrow>
          if isComplete url
          then [DrawImage5 (ImageEl url) (-150) (-150) 300 300]
          else [SetFillStyle (Solid (Css ''#111'')), FillRect (-150) (-150) 300 300]) @
     [Restore]"

definition startsWith :: "string \<Rightarrow> string \<Rightarrow> bool" where
  "startsWith s p = (take (length p) s = p)"

definition renderLoop_albumArt ::
  "VisualizerConfig \<Rightarrow> number \<Rightarrow> number \<Rightarrow> number \<Rightarrow> live_assets \<Rightarrow> canvas_op list" where
  "renderLoop_albumArt currentConfig width height pulse assets =
     (if preset currentConfig \<in> set [NCS_Circle, Hexagon, Orbital, Shockwave]
      then (let rawAlbumArtUrl =
                  (case customAlbumArt assets of
                     Some u \<Rightarrow> if u = [] then coverUrl assets else u
                   | None \<Rightarrow> coverUrl assets);
                albumArtUrl =
                  (if startsWith rawAlbumArtUrl ''http''
                   then ''/api/proxy/image?url='' @ encodeURIComponent assets rawAlbumArtUrl
                   else rawAlbumArtUrl)
            in drawAlbumArt (width / 2) (height / 2) pulse albumArtUrl (primaryColor currentConfig)
                 (customAlbumArtImageRef assets) (imageComplete assets))
      else [])"

definition renderLoop_pixelate ::
  "EffectConfig \<Rightarrow> EffectIntensities \<Rightarrow> number \<Rightarrow> number \<Rightarrow> canvas_op list" where
  "renderLoop_pixelate currentEffects currentIntensities width height =
     (if currentEffects Pixelate
      then (let pixelSize = max 4 \<lfloor>16 * currentIntensities Pixelate\<rfloor>;
                smallW = \<lfloor>width / real_of_int pixelSize\<rfloor>;
                smallH = \<lfloor>height / real_of_int pixelSize\<rfloor>
            in [SetImageSmoothingEnabled False,
                CreateTempCanvas smallW smallH,
                TempDrawImage5 CanvasEl 0 0 (real_of_int smallW) (real_of_int smallH),
                ClearRect 0 0 width height,
                DrawImage9 TempCanvasEl 0 0 (real_of_int smallW) (real_of_int smallH) 0 0 width height,
                SetImageSmoothingEnabled True])
      else [])"

definition renderLoop_textLayer ::
  "VisualizerConfig \<Rightarrow> number \<Rightarrow> number \<Rightarrow> number \<Rightarrow> TextLayer \<Rightarrow> canvas_op list" where
  "renderLoop_textLayer currentConfig width height pulse layer =
     (let dynamicSize =
            (if layerId layer = ''1'' \<and> preset currentConfig = Minimal
             then layerSize layer * pulse else layerSize layer);
          xPos = (layerX layer / 100) * width;
          yPos = (layerY layer / 100) * height
      in [SetFillStyle (Solid (Css (layerColor layer))),
          SetFont (FontBold dynamicSize (layerFont layer)),
          FillText (layerText layer) xPos yPos])"

definition renderLoop_texts ::
  "VisualizerConfig \<Rightarrow> TextLayer list \<Rightarrow> number \<Rightarrow> number \<Rightarrow> number \<Rightarrow> canvas_op list" where
  "renderLoop_texts currentConfig currentTexts width height pulse =
     [SetShadowBlur 10, SetShadowColor (Css ''black''), SetTextAlign ''center''] @
     concat (map (renderLoop_textLayer currentConfig width height pulse) currentTexts) @
     [Restore]"

definition renderLoop_scanlines ::
  "EffectConfig \<Rightarrow> EffectIntensities \<Rightarrow> number \<Rightarrow> number \<Rightarrow> canvas_op list" where
  "renderLoop_scanlines currentEffects currentIntensities width height =
     (if currentEffects Scanlines \<or> currentEffects Cctv
      then scanlineLoop width height 0
             [SetFillStyle (Solid (Rgba 0 0 0 (currentIntensities Scanlines * 0.8)))]
      else [])"

definition renderLoop_vhs ::
  "EffectConfig \<Rightarrow> EffectIntensities \<Rightarrow> number \<Rightarrow> number \<Rightarrow> number \<Rightarrow>
   ambient \<Rightarrow> canvas_op list \<times> ambient" where
  "renderLoop_vhs currentEffects currentIntensities width height normBass amb =
     (let (cond, amb1) =
            (if currentEffects Vhs then (True, amb)
             else if currentEffects Chromatic then (True, amb)
             else if currentEffects Glitch
                  then (let (r, a1) = mathRandom amb in (r > 1 - currentIntensities Glitch, a1))
                  else (False, amb))
      in if cond
         then (let intensity = (if currentEffects Vhs then currentIntensities Vhs
                                else currentIntensities Chromatic);
                   offset = (10 * intensity) * normBass
               in ([SetGlobalCompositeOperation ''screen'',
                    SetFillStyle (Solid (Rgba 255 0 0 (0.2 * intensity))),
                    FillRect (- offset) 0 width height,
                    SetFillStyle (Solid (Rgba 0 0 255 (0.2 * intensity))),
                    FillRect offset 0 width height,
                    SetGlobalCompositeOperation ''source-over''], amb1))
         else ([], amb1))"

text \<open>Glitch, live: a slice of the canvas redrawn with an offset, then the coloured block.\<close>

definition renderLoop_glitch ::
  "VisualizerConfig \<Rightarrow> EffectConfig \<Rightarrow> EffectIntensities \<Rightarrow> number \<Rightarrow> number \<Rightarrow>
   ambient \<Rightarrow> canvas_op list \<times> ambient" where
  "renderLoop_glitch currentConfig currentEffects currentIntensities width height amb =
     (if currentEffects Glitch
      then (let (r0, a0) = mathRandom amb
            in if r0 > 1 - currentIntensities Glitch
               then (let (r1, a1) = mathRandom a0;
                         sliceHeight = r1 * 50;
                         (r2, a2) = mathRandom a1;
                         sliceY = r2 * height;
                         (r3, a3) = mathRandom a2;
                         offset = (r3 - 0.5) * 40 * currentIntensities Glitch;
                         (r4, a4) = mathRandom a3;
                         (r5, a5) = mathRandom a4;
                         (r6, a6) = mathRandom a5;
                         (r7, a7) = mathRandom a6
                     in ([DrawImage9 CanvasEl 0 sliceY width sliceHeight offset sliceY width sliceHeight,
                          SetFillStyle (Solid (Css (if r4 > 0.5 then primaryColor currentConfig
                                                     else ''#fff''))),
                          FillRect (r5 * width) (r6 * height) (r7 * 200) 4], a7))
               else ([], a0))
      else ([], amb))"

text \<open>CCTV, live: green tint, vignette, and the date stamp with the REC mark.\<close>

definition renderLoop_cctv ::
  "EffectConfig \<Rightarrow> EffectIntensities \<Rightarrow> number \<Rightarrow> number \<Rightarrow> ambient \<Rightarrow> canvas_op list" where
  "renderLoop_cctv currentEffects currentIntensities width height amb =
     (if currentEffects Cctv
      then (let intensity = currentIntensities Cctv;
                centerX = width / 2;
                centerY = height / 2;
                grad = RadialGradient centerX centerY (height * 0.4) centerX centerY (height * 0.9)
                         [(0, Css ''transparent''), (1, Css ''black'')]
            in [SetGlobalCompositeOperation ''overlay'',
                SetFillStyle (Solid (Rgba 0 50 0 (0.4 * intensity))),
                FillRect 0 0 width height,
                SetGlobalCompositeOperation ''multiply'',
                SetFillStyle grad,
                FillRect 0 0 width height,
                SetGlobalCompositeOperation ''source-over'',
                SetFont (FontLiteral ''mono 24px monospace''),
                SetFillStyle (Solid (Css ''white'')),
                SetShadowColor (Css ''black''),
                FillText (dateStamp amb) 60 60,
                FillText (''REC '' @ [CHR 0xE2, CHR 0x97, CHR 0x8F]) (width - 120) 60])
      else [])"

definition renderLoop_bloom ::
  "EffectConfig \<Rightarrow> EffectIntensities \<Rightarrow> canvas_op list" where
  "renderLoop_bloom currentEffects currentIntensities =
     (if currentEffects Bloom
      then (let intensity = currentIntensities Bloom
            in [SetGlobalCompositeOperation ''screen'',
                SetFilter (Blur (15 * intensity)),
                SetGlobalAlpha (0.4 * intensity),
                DrawImage3 CanvasEl 0 0,
                SetFilter FilterNone,
                SetGlobalAlpha 1,
                SetGlobalCompositeOperation ''source-over''])
      else [])"

text \<open>Film grain, live: \<^verbatim>\<open>for (let i = 0; i < data.length; i += 4)\<close>.\<close>

function grainLoop4 :: "int \<Rightarrow> number \<Rightarrow> int \<Rightarrow> canvas_op list \<Rightarrow> ambient \<Rightarrow> canvas_op list \<times> ambient" where
  "grainLoop4 dataLength grainAmount i ops amb =
     (if i < dataLength
      then (let (r, a1) = mathRandom amb;
                noise = (r - 0.5) * grainAmount
            in grainLoop4 dataLength grainAmount (i + 4) (ops @ [AddNoise i noise]) a1)
      else (ops, amb))"
  by pat_completeness auto
termination
  by (relation "measure (\<lambda>(dataLength, grainAmount, i, ops, amb). nat (dataLength - i))") auto

declare grainLoop4.simps [simp del]

definition renderLoop_filmGrain ::
  "EffectConfig \<Rightarrow> EffectIntensities \<Rightarrow> number \<Rightarrow> number \<Rightarrow> ambient \<Rightarrow> canvas_op list \<times> ambient" where
  "renderLoop_filmGrain currentEffects currentIntensities width height amb =
     (if currentEffects FilmGrain
      then (let intensity = currentIntensities FilmGrain;
                dataLength = \<lfloor>width\<rfloor> * \<lfloor>height\<rfloor> * 4;
                grainAmount = intensity * 50;
                (ops, amb1) = grainLoop4 dataLength grainAmount 0 [GetImageData 0 0 width height] amb
            in (ops @ [PutImageData 0 0], amb1))
      else ([], amb))"

definition renderLoop_strobe ::
  "EffectConfig \<Rightarrow> EffectIntensities \<Rightarrow> number \<Rightarrow> number \<Rightarrow> number \<Rightarrow> canvas_op list" where
  "renderLoop_strobe currentEffects currentIntensities width height normBass =
     (if currentEffects Strobe \<and> normBass > 0.7 - currentIntensities Strobe * 0.3
      then [SetGlobalCompositeOperation ''screen'',
            SetFillStyle (Solid (Rgba 255 255 255 (currentIntensities Strobe * normBass * 0.8))),
            FillRect 0 0 width height,
            SetGlobalCompositeOperation ''source-over'']
      else [])"

definition renderLoop_vignette ::
  "EffectConfig \<Rightarrow> EffectIntensities \<Rightarrow> number \<Rightarrow> number \<Rightarrow> canvas_op list" where
  "renderLoop_vignette currentEffects currentIntensities width height =
     (if currentEffects Vignette
      then (let intensity = currentIntensities Vignette;
                centerX = width / 2;
                centerY = height / 2;
                grad = RadialGradient centerX centerY (height * 0.3) centerX centerY (height * 0.8)
                         [(0, Css ''transparent''), (1, Rgba 0 0 0 (0.8 * intensity))]
            in [SetFillStyle grad, FillRect 0 0 width height])
      else [])"

definition renderLoop_hueShift ::
  "EffectConfig \<Rightarrow> EffectIntensities \<Rightarrow> number \<Rightarrow> canvas_op list" where
  "renderLoop_hueShift currentEffects currentIntensities normBass =
     (if currentEffects HueShift
      then (let hueRotation = currentIntensities HueShift * 360 * (1 + normBass * 0.5)
            in [SetFilter (HueRotate hueRotation), DrawImage3 CanvasEl 0 0, SetFilter FilterNone])
      else [])"

definition renderLoop_letterbox ::
  "EffectConfig \<Rightarrow> EffectIntensities \<Rightarrow> number \<Rightarrow> number \<Rightarrow> canvas_op list" where
  "renderLoop_letterbox currentEffects currentIntensities width height =
     (if currentEffects Letterbox
      then (let barHeight = height * 0.12 * currentIntensities Letterbox
            in [SetFillStyle (Solid (Css ''black'')),
                FillRect 0 0 width barHeight,
                FillRect 0 (height - barHeight) width barHeight])
      else [])"

definition renderLoop_postProcess ::
  "snapshot \<Rightarrow> number \<Rightarrow> number \<Rightarrow> number \<Rightarrow> ambient \<Rightarrow> canvas_op list \<times> ambient" where
  "renderLoop_postProcess snap width height normBass amb =
     (let cfg = snapConfig snap; eff = snapEffects snap; ints = snapIntensities snap;
          scan = renderLoop_scanlines eff ints width height;
          (vhsOps, amb1) = renderLoop_vhs eff ints width height normBass amb;
          (glitchOps, amb2) = renderLoop_glitch cfg eff ints width height amb1;
          cctvOps = renderLoop_cctv eff ints width height amb2;
          bloomOps = renderLoop_bloom eff ints;
          (grainOps, amb3) = renderLoop_filmGrain eff ints width height amb2;
          strobeOps = renderLoop_strobe eff ints width height normBass;
          vignetteOps = renderLoop_vignette eff ints width height;
          hueOps = renderLoop_hueShift eff ints normBass;
          letterboxOps = renderLoop_letterbox eff ints width height
      in (scan @ vhsOps @ glitchOps @ cctvOps @ bloomOps @ grainOps @ strobeOps @
          vignetteOps @ hueOps @ letterboxOps, amb3))"

text \<open>
  One run of \<^verbatim>\<open>renderLoop\<close> past its guards: the refs are read (\<open>snap\<close> holds
  \<^verbatim>\<open>configRef.current\<close>, \<^verbatim>\<open>effectsRef.current\<close>, \<^verbatim>\<open>intensitiesRef.current\<close> and
  \<^verbatim>\<open>textLayersRef.current\<close> at this frame), the time is \<^verbatim>\<open>Date.now() / 1000\<close>, and
  \<open>dataArray\<close> and \<open>timeDomain\<close> are what the analyser node returns.  First the part up
  to the \<^verbatim>\<open>ctx.restore()\<close> after the text layers, then the whole frame.
\<close>

definition renderLoop_core ::
  "preset_renderer \<Rightarrow> snapshot \<Rightarrow> live_assets \<Rightarrow> number \<Rightarrow> number \<Rightarrow>
   Uint8Array \<Rightarrow> Uint8Array \<Rightarrow> ambient \<Rightarrow> canvas_op list \<times> ambient" where
  "renderLoop_core drawPreset snap assets width height dataArray timeDomain amb =
     (let cfg = snapConfig snap; eff = snapEffects snap; ints = snapIntensities snap;
          time = dateNow amb / 1000;
          bass = renderLoop_bass dataArray;
          normBass = renderLoop_normBass dataArray;
          pulse = renderLoop_pulse dataArray;
          clearOps = renderLoop_clear width height;
          bgSource = renderLoop_bgSource assets;
          (bgOps, amb1) = renderLoop_background cfg eff ints width height time normBass bgSource amb;
          call = renderLoop_presetCall cfg width height dataArray timeDomain bass pulse time;
          (presetOps, amb2) = renderLoop_preset drawPreset eff ints normBass call amb1;
          (particleOps, amb3) =
            drawParticles width height time bass (particleCount cfg) (primaryColor cfg) amb2;
          albumOps = renderLoop_albumArt cfg width height pulse assets;
          pixelateOps = renderLoop_pixelate eff ints width height;
          textOps = renderLoop_texts cfg (snapTexts snap) width height pulse
      in (clearOps @ bgOps @ presetOps @ particleOps @ albumOps @ pixelateOps @ textOps, amb3))"

definition renderLoop_frame ::
  "preset_renderer \<Rightarrow> snapshot \<Rightarrow> live_assets \<Rightarrow> number \<Rightarrow> number \<Rightarrow>
   Uint8Array \<Rightarrow> Uint8Array \<Rightarrow> ambient \<Rightarrow> canvas_op list \<times> ambient" where
  "renderLoop_frame drawPreset snap assets width height dataArray timeDomain amb =
     (let (coreOps, amb3) = renderLoop_core drawPreset snap assets width height dataArray timeDomain amb;
          (postOps, amb4) =
            renderLoop_postProcess snap width height (renderLoop_normBass dataArray) amb3
      in (coreOps @ postOps, amb4))"

section \<open>Example inputs\<close>

text \<open>The initial values of the component's state, as in the \<^verbatim>\<open>useState\<close> calls.\<close>

definition defaultConfig :: VisualizerConfig where
  "defaultConfig =
     \<lparr>preset = NCS_Circle, primaryColor = ''#ec4899'', secondaryColor = ''#3b82f6'',
      bgDim = 0.6, particleCount = 50\<rparr>"


fun defaultIntensities :: EffectIntensities where
  "defaultIntensities Shake = 0.05"
| "defaultIntensities Glitch = 0.3"
| "defaultIntensities Vhs = 0.5"
| "defaultIntensities Cctv = 0.8"
| "defaultIntensities Scanlines = 0.4"
| "defaultIntensities Chromatic = 0.5"
| "defaultIntensities Bloom = 0.5"
| "defaultIntensities FilmGrain = 0.3"
| "defaultIntensities Pixelate = 0.3"
| "defaultIntensities Strobe = 0.5"
| "defaultIntensities Vignette = 0.5"
| "defaultIntensities HueShift = 0.5"
| "defaultIntensities Letterbox = 0.5"

text \<open>A configuration with every effect off, and one with only the glitch effect on.\<close>

definition allEffectsOff :: EffectConfig where
  "allEffectsOff = (\<lambda>k. False)"


definition minimalConfig :: VisualizerConfig where
  "minimalConfig = defaultConfig\<lparr>preset := Minimal, particleCount := 0\<rparr>"

definition plainSnapshot :: snapshot where
  "plainSnapshot =
     \<lparr>snapConfig = minimalConfig, snapEffects = allEffectsOff,
      snapIntensities = defaultIntensities, snapTexts = []\<rparr>"


text \<open>An ambient state whose \<^verbatim>\<open>Math.random()\<close> always returns 0.9, at time 0.\<close>

definition exampleAmbient :: ambient where
  "exampleAmbient = \<lparr>randoms = (\<lambda>n. 0.9), rpos = 0, dateNow = 0, dateStamp = ''1/1/1970, 12:00:00 AM''\<rparr>"

text \<open>A preset renderer that draws nothing, and assets with nothing loaded.\<close>

definition blankPreset :: preset_renderer where
  "blankPreset = (\<lambda>call amb. ([], amb))"

definition noOfflineAssets :: offline_assets where
  "noOfflineAssets = \<lparr>bgImage = None, bgVideo = None, albumImage = None\<rparr>"

definition noLiveAssets :: live_assets where
  "noLiveAssets =
     \<lparr>bgVideoRef = None, bgImageRef = None, customAlbumArt = None, coverUrl = ''cover.png'',
      customAlbumArtImageRef = None, imageComplete = (\<lambda>u. False), encodeURIComponent = (\<lambda>u. u)\<rparr>"

text \<open>
  The two text layers set up when a song is loaded (its title and its style in upper
  case), and the snapshot of the initial state.
\<close>

definition defaultTexts :: "TextLayer list" where
  "defaultTexts =
     [\<lparr>layerId = ''1'', layerText = ''Song'', layerX = 50, layerY = 85, layerSize = 52,
       layerColor = ''#ffffff'', layerFont = ''Inter''\<rparr>,
      \<lparr>layerId = ''2'', layerText = ''POP'', layerX = 50, layerY = 92, layerSize = 24,
       layerColor = ''#3b82f6'', layerFont = ''Inter''\<rparr>]"




section \<open>Offline export pipeline\<close>

text \<open>
  The state of the component that the export touches: the React state
  (\<^verbatim>\<open>isExporting\<close>, \<^verbatim>\<open>exportProgress\<close>, \<^verbatim>\<open>exportStage\<close>, \<^verbatim>\<open>ffmpegLoaded\<close>,
  \<^verbatim>\<open>ffmpegLoading\<close>), the refs, and what the user gets to see: alerts, console errors
  and downloads.  \<open>progressLog\<close> records every value passed to
  \<^verbatim>\<open>setExportProgress\<close>, in order.

  The type of \<^verbatim>\<open>exportStage\<close> is \<^verbatim>\<open>'idle' | 'capturing' | 'encoding'\<close>.
\<close>

datatype ExportStage = StageIdle | StageCapturing | StageEncoding

text \<open>
  A file of the encoder's virtual file system is a captured frame or raw bytes.  A frame
  captured with \<^verbatim>\<open>canvas.toDataURL\<close> is determined by the commands issued to the export
  canvas since it was created; it is kept as that command list.
\<close>

datatype file_content = FrameJpeg "canvas_op list" | FileBytes Uint8Array

text \<open>
  The encoder instance: its files, and the value of \<^verbatim>\<open>exportStage\<close> that the
  \<^verbatim>\<open>'progress'\<close> handler registered by \<^verbatim>\<open>loadFFmpeg\<close> closed over.
\<close>

record FFmpeg =
  files :: "(string \<times> file_content) list"
  handlerStage :: ExportStage

text \<open>
  The four refs the render code reads.  The UI never mutates the objects they hold: every
  handler builds a new object (\<^verbatim>\<open>setConfig({...config, preset})\<close>,
  \<^verbatim>\<open>setTextLayers([...textLayers, newLayer])\<close>) and an effect stores it in the ref.  So
  a ref holds a value, and a UI action replaces it.
\<close>

record refs =
  configRef :: VisualizerConfig
  effectsRef :: EffectConfig
  intensitiesRef :: EffectIntensities
  textLayersRef :: "TextLayer list"

record component =
  isExporting :: bool
  exportProgress :: int
  exportStage :: ExportStage
  progressLog :: "int list"
  ffmpegLoaded :: bool
  ffmpegLoading :: bool
  ffmpegRef :: "FFmpeg option"
  refsNow :: refs
  alerts :: "string list"
  consoleErrors :: "string list"
  downloads :: "(string \<times> Uint8Array) list"

datatype BackgroundType = BgRandom | BgCustom | BgVideo

text \<open>
  What the world outside the component answers during one export: the song, the page,
  the network, the audio decoder, the encoder, and what the user does to the
  configuration while the export waits (\<open>uiBeforeSnapshot\<close>: the net effect of the UI
  on the refs between the click and the end of the audio analysis; \<open>uiDuringFrame i\<close>:
  its net effect while frame \<open>i\<close> is written).  A rejected promise is \<open>Inl\<close> with its
  reason.  \<open>readOutput\<close> is what reading \<^verbatim>\<open>output.mp4\<close> gives after the encoder ran on
  the files written so far.
\<close>

record export_env =
  canvasPresent :: bool
  songPresent :: bool
  songTitle :: string
  audioUrl :: string
  contextAvailable :: bool
  backgroundType :: BackgroundType
  videoUrl :: string
  page :: live_assets
  loadVideo :: "string \<Rightarrow> number option"
  loadImageAsDataUrl :: "string \<Rightarrow> string option"
  fetchAudio :: "string \<Rightarrow> string + Uint8Array"
  decodeAudioData :: "Uint8Array \<Rightarrow> string + AudioBuffer"
  writeFile :: "string \<Rightarrow> string option"
  execProgress :: "number list"
  execRejects :: "string option"
  readOutput :: "(string \<times> file_content) list \<Rightarrow> string + Uint8Array"
  ffmpegLoads :: bool
  uiBeforeSnapshot :: "refs \<Rightarrow> refs"
  uiDuringFrame :: "int \<Rightarrow> refs \<Rightarrow> refs"
  presetRenderer :: preset_renderer
  ambient0 :: ambient

definition setExportProgress :: "int \<Rightarrow> component \<Rightarrow> component" where
  "setExportProgress v st = st\<lparr>exportProgress := v, progressLog := progressLog st @ [v]\<rparr>"

subsection \<open>File names\<close>

text \<open>\<^verbatim>\<open>`frame${String(frameIndex).padStart(6, '0')}.jpg`\<close>.\<close>

definition digitChar :: "nat \<Rightarrow> char" where
  "digitChar d = char_of (48 + d)"

function stringOfNat :: "nat \<Rightarrow> string" where
  "stringOfNat n = (if n < 10 then [digitChar n] else stringOfNat (n div 10) @ [digitChar (n mod 10)])"
  by pat_completeness auto
termination
  by (relation "measure id") auto

declare stringOfNat.simps [simp del]

definition padStart :: "string \<Rightarrow> nat \<Rightarrow> char \<Rightarrow> string" where
  "padStart s n c = replicate (n - length s) c @ s"

definition frameFileName :: "int \<Rightarrow> string" where
  "frameFileName frameIndex = ''frame'' @ padStart (stringOfNat (nat frameIndex)) 6 (CHR ''0'') @ ''.jpg''"

definition ffmpegWriteFile :: "string \<Rightarrow> file_content \<Rightarrow> FFmpeg \<Rightarrow> FFmpeg" where
  "ffmpegWriteFile name content ff =
     ff\<lparr>files := filter (\<lambda>p. fst p \<noteq> name) (files ff) @ [(name, content)]\<rparr>"

definition ffmpegDeleteFile :: "string \<Rightarrow> FFmpeg \<Rightarrow> FFmpeg" where
  "ffmpegDeleteFile name ff = ff\<lparr>files := filter (\<lambda>p. fst p \<noteq> name) (files ff)\<rparr>"

subsection \<open>Loading the encoder\<close>

text \<open>
  \<^verbatim>\<open>loadFFmpeg\<close>.  The \<^verbatim>\<open>'progress'\<close> handler tests \<^verbatim>\<open>exportStage === 'encoding'\<close>
  on the \<^verbatim>\<open>exportStage\<close> of the render in which \<^verbatim>\<open>loadFFmpeg\<close> was created: the
  value of the state when the load was started.
\<close>

definition loadFFmpeg :: "export_env \<Rightarrow> component \<Rightarrow> component" where
  "loadFFmpeg env st =
     (if ffmpegRef st \<noteq> None \<or> ffmpegLoading st then st
      else if ffmpegLoads env
           then st\<lparr>ffmpegRef := Some \<lparr>files = [], handlerStage = exportStage st\<rparr>,
                   ffmpegLoaded := True, ffmpegLoading := False\<rparr>
           else st\<lparr>consoleErrors := consoleErrors st @ [''Failed to load FFmpeg:''],
                   alerts := alerts st @
                     [''Failed to load video encoder. Please refresh and try again.''],
                   ffmpegLoading := False\<rparr>)"

definition onProgress :: "ExportStage \<Rightarrow> number \<Rightarrow> component \<Rightarrow> component" where
  "onProgress capturedStage progress st =
     (if capturedStage = StageEncoding
      then setExportProgress (mathRound (progress * 100)) st
      else st)"

subsection \<open>Preloading the assets\<close>

definition truthy :: "string option \<Rightarrow> string option" where
  "truthy s = (case s of Some u \<Rightarrow> if u = [] then None else Some u | None \<Rightarrow> None)"

definition preloadAssets :: "export_env \<Rightarrow> offline_assets" where
  "preloadAssets env =
     (let (bgI, bgV) =
            (if backgroundType env = BgVideo \<and> videoUrl env \<noteq> []
             then (None, map_option (\<lambda>dur. (videoUrl env, dur)) (loadVideo env (videoUrl env)))
             else (case truthy (bgImageRef (page env)) of
                     Some src \<Rightarrow> (truthy (loadImageAsDataUrl env src), None)
                   | None \<Rightarrow> (None, None)));
          albumArtSource =
            (case truthy (customAlbumArt (page env)) of
               Some u \<Rightarrow> Some u
             | None \<Rightarrow> truthy (Some (coverUrl (page env))));
          albumI =
            (case albumArtSource of
               Some src \<Rightarrow>
                 truthy (if startsWith src ''data:'' then Some src else loadImageAsDataUrl env src)
             | None \<Rightarrow> None)
      in \<lparr>bgImage = bgI, bgVideo = bgV, albumImage = albumI\<rparr>)"

subsection \<open>The frame loop\<close>

definition exportFps :: number where
  "exportFps = 30"

definition exportWidth :: number where
  "exportWidth = 1920"

definition exportHeight :: number where
  "exportHeight = 1080"

text \<open>\<^verbatim>\<open>frequencyDataFrames[frameIndex] || new Uint8Array(1024)\<close>.\<close>

definition frameDataArray :: "Uint8Array list \<Rightarrow> int \<Rightarrow> Uint8Array" where
  "frameDataArray frequencyDataFrames frameIndex =
     (if 0 \<le> frameIndex \<and> frameIndex < int (length frequencyDataFrames)
      then frequencyDataFrames ! nat frameIndex
      else newUint8Array 1024)"

text \<open>
  The state of the loop: the component, the commands issued to the export canvas so
  far, and the ambient state.  The loop stops with \<open>Some reason\<close> when writing a frame
  is rejected.
\<close>

function renderOffline_frameLoop ::
  "export_env \<Rightarrow> snapshot \<Rightarrow> offline_assets \<Rightarrow> Uint8Array list \<Rightarrow> int \<Rightarrow> int \<Rightarrow>
   component \<Rightarrow> canvas_op list \<Rightarrow> ambient \<Rightarrow>
   string option \<times> component \<times> canvas_op list \<times> ambient" where
  "renderOffline_frameLoop env snap assets frequencyDataFrames totalFrames frameIndex st canvasOps amb =
     (if frameIndex < totalFrames
      then (let time = real_of_int frameIndex / exportFps;
                dataArray = frameDataArray frequencyDataFrames frameIndex;
                (ops, amb1) = renderOffline_frame (presetRenderer env) snap assets
                                exportWidth exportHeight dataArray time amb;
                canvasOps1 = canvasOps @ ops;
                name = frameFileName frameIndex
            in case writeFile env name of
                 Some reason \<Rightarrow> (Some reason, st, canvasOps1, amb1)
               | None \<Rightarrow>
                   (let st1 = st\<lparr>ffmpegRef :=
                                  map_option (ffmpegWriteFile name (FrameJpeg canvasOps1)) (ffmpegRef st)\<rparr>;
                        st2 = (if frameIndex mod 10 = 0
                               then setExportProgress
                                      (15 + mathRound ((real_of_int frameIndex / real_of_int totalFrames) * 55)) st1
                               else st1);
                        st3 = st2\<lparr>refsNow := uiDuringFrame env frameIndex (refsNow st2)\<rparr>
                    in renderOffline_frameLoop env snap assets frequencyDataFrames totalFrames
                         (frameIndex + 1) st3 canvasOps1 amb1))
      else (None, st, canvasOps, amb))"
  by pat_completeness auto
termination
  by (relation "measure (\<lambda>(env, snap, assets, fr, total, i, st, ops, amb). nat (total - i))") auto

declare renderOffline_frameLoop.simps [simp del]

subsection \<open>Encoding and download\<close>

function deleteFramesLoop :: "int \<Rightarrow> int \<Rightarrow> FFmpeg \<Rightarrow> FFmpeg" where
  "deleteFramesLoop totalFrames i ff =
     (if i < totalFrames
      then deleteFramesLoop totalFrames (i + 1) (ffmpegDeleteFile (frameFileName i) ff)
      else ff)"
  by pat_completeness auto
termination
  by (relation "measure (\<lambda>(total, i, ff). nat (total - i))") auto

declare deleteFramesLoop.simps [simp del]

text \<open>How a call of \<^verbatim>\<open>renderOffline\<close> ends.\<close>

datatype outcome = Completed | ReturnedEarly | Threw string

text \<open>
  From \<^verbatim>\<open>setExportStage('encoding')\<close> to the end of \<^verbatim>\<open>renderOffline\<close>, in the steps
  the source marks: the stage change, the audio file, the encoder run with its progress
  events, the download, the cleanup.  The timer set in the last lines is
  \<open>exportFinishedTimer\<close>.
\<close>

definition beginEncoding :: "component \<Rightarrow> component" where
  "beginEncoding st = setExportProgress 70 (st\<lparr>exportStage := StageEncoding\<rparr>)"

definition audioWritten :: "Uint8Array \<Rightarrow> component \<Rightarrow> component" where
  "audioWritten audioDataCopy st =
     setExportProgress 75
       (st\<lparr>ffmpegRef :=
             map_option (ffmpegWriteFile ''audio.mp3'' (FileBytes audioDataCopy)) (ffmpegRef st)\<rparr>)"

definition execEvents :: "export_env \<Rightarrow> component \<Rightarrow> component" where
  "execEvents env st =
     (let capturedStage = (case ffmpegRef st of Some ff \<Rightarrow> handlerStage ff | None \<Rightarrow> StageIdle)
      in foldl (\<lambda>s p. onProgress capturedStage p s) st (execProgress env))"

definition ffmpegFiles :: "component \<Rightarrow> (string \<times> file_content) list" where
  "ffmpegFiles st = (case ffmpegRef st of Some ff \<Rightarrow> files ff | None \<Rightarrow> [])"

definition downloadAndCleanup :: "export_env \<Rightarrow> int \<Rightarrow> Uint8Array \<Rightarrow> component \<Rightarrow> component" where
  "downloadAndCleanup env totalFrames outputData st =
     (let fileName = (if songTitle env = [] then ''suno-video'' else songTitle env) @ ''.mp4'';
          st6 = st\<lparr>downloads := downloads st @ [(fileName, outputData)]\<rparr>;
          st7 = setExportProgress 98 st6;
          st8 = st7\<lparr>ffmpegRef :=
                   map_option
                     (\<lambda>ff. ffmpegDeleteFile ''output.mp4''
                             (ffmpegDeleteFile ''audio.mp3''
                               (deleteFramesLoop totalFrames 0 ff)))
                     (ffmpegRef st7)\<rparr>
      in setExportProgress 100 st8)"

definition renderOffline_encode ::
  "export_env \<Rightarrow> Uint8Array \<Rightarrow> int \<Rightarrow> component \<Rightarrow> outcome \<times> component" where
  "renderOffline_encode env audioDataCopy totalFrames st =
     (let st1 = beginEncoding st
      in case writeFile env ''audio.mp3'' of
           Some reason \<Rightarrow> (Threw reason, st1)
         | None \<Rightarrow>
            (let st4 = execEvents env (audioWritten audioDataCopy st1)
             in case execRejects env of
                  Some reason \<Rightarrow> (Threw reason, st4)
                | None \<Rightarrow>
                   (let st5 = setExportProgress 95 st4
                    in case readOutput env (ffmpegFiles st5) of
                         Inl reason \<Rightarrow> (Threw reason, st5)
                       | Inr outputData \<Rightarrow>
                           if length outputData = 0
                           then (Threw ''FFmpeg produced an empty output file'', st5)
                           else (Completed, downloadAndCleanup env totalFrames outputData st5))))"

definition exportFinishedTimer :: "component \<Rightarrow> component" where
  "exportFinishedTimer st = st\<lparr>isExporting := False, exportStage := StageIdle\<rparr>"

subsection \<open>\<^verbatim>\<open>renderOffline\<close> and \<^verbatim>\<open>startRecording\<close>\<close>

definition takeSnapshot :: "refs \<Rightarrow> snapshot" where
  "takeSnapshot r =
     \<lparr>snapConfig = configRef r, snapEffects = effectsRef r,
      snapIntensities = intensitiesRef r, snapTexts = textLayersRef r\<rparr>"

definition renderOffline :: "export_env \<Rightarrow> component \<Rightarrow> outcome \<times> component" where
  "renderOffline env st =
     (if \<not> songPresent env \<or> ffmpegRef st = None then (ReturnedEarly, st)
      else if \<not> contextAvailable env then (ReturnedEarly, st)
      else (let st1 = setExportProgress 1 st;
                assets = preloadAssets env;
                st2 = setExportProgress 2 st1
            in case fetchAudio env (audioUrl env) of
                 Inl reason \<Rightarrow> (Threw reason, st2)
               | Inr audioArrayBuffer \<Rightarrow>
                  (let audioDataCopy = audioArrayBuffer;
                       st3 = setExportProgress 5 st2
                   in case decodeAudioData env audioArrayBuffer of
                        Inl reason \<Rightarrow> (Threw reason, st3)
                      | Inr audioBuffer \<Rightarrow>
                         (let totalFrames = \<lceil>duration audioBuffer * exportFps\<rceil>;
                              st4 = setExportProgress 10 st3;
                              frequencyDataFrames = analyzeAudioOffline audioBuffer exportFps;
                              st5 = setExportProgress 15 st4;
                              st6 = st5\<lparr>refsNow := uiBeforeSnapshot env (refsNow st5)\<rparr>;
                              snap = takeSnapshot (refsNow st6);
                              (thrown, st7, canvasOps, amb) =
                                renderOffline_frameLoop env snap assets frequencyDataFrames
                                  totalFrames 0 st6 [] (ambient0 env)
                          in case thrown of
                               Some reason \<Rightarrow> (Threw reason, st7)
                             | None \<Rightarrow> renderOffline_encode env audioDataCopy totalFrames st7))))"

definition startRecording :: "export_env \<Rightarrow> component \<Rightarrow> outcome \<times> component" where
  "startRecording env st =
     (if \<not> canvasPresent env \<or> \<not> songPresent env then (ReturnedEarly, st)
      else (let st0 = (if ffmpegRef st = None then loadFFmpeg env st else st)
            in if ffmpegRef st0 = None then (ReturnedEarly, st0)
               else (let st1 = setExportProgress 0
                                 (st0\<lparr>isExporting := True, exportStage := StageCapturing\<rparr>)
                     in case renderOffline env st1 of
                          (Threw reason, st2) \<Rightarrow>
                            (Threw reason,
                             st2\<lparr>consoleErrors := consoleErrors st2 @ [''Rendering failed: '' @ reason],
                                 alerts := alerts st2 @ [''Video rendering failed. Please try again.''],
                                 isExporting := False,
                                 exportStage := StageIdle\<rparr>)
                        | (res, st2) \<Rightarrow> (res, st2))))"

subsection \<open>Observations\<close>

text \<open>
  Everything in the component but the current contents of the refs, and the part of it
  that the frame loop never writes.
\<close>

definition exportView ::
  "component \<Rightarrow> bool \<times> int \<times> ExportStage \<times> int list \<times> bool \<times> bool \<times> FFmpeg option \<times>
     string list \<times> string list \<times> (string \<times> Uint8Array) list" where
  "exportView st =
     (isExporting st, exportProgress st, exportStage st, progressLog st, ffmpegLoaded st,
      ffmpegLoading st, ffmpegRef st, alerts st, consoleErrors st, downloads st)"

definition stableView ::
  "component \<Rightarrow> bool \<times> ExportStage \<times> bool \<times> bool \<times> ExportStage option \<times>
     string list \<times> string list \<times> (string \<times> Uint8Array) list" where
  "stableView st =
     (isExporting st, exportStage st, ffmpegLoaded st, ffmpegLoading st,
      map_option handlerStage (ffmpegRef st), alerts st, consoleErrors st, downloads st)"

text \<open>The progress values the frame loop reports from frame \<open>i\<close> on.\<close>

definition frameProgress :: "int \<Rightarrow> int \<Rightarrow> int list" where
  "frameProgress totalFrames i =
     map (\<lambda>k. 15 + mathRound ((real_of_int k / real_of_int totalFrames) * 55))
       (filter (\<lambda>k. k mod 10 = 0) [i..totalFrames - 1])"

subsection \<open>An example export\<close>

text \<open>
  A decoded buffer of 1470 silent samples at 44.1 kHz (one frame at 30 fps), a world in
  which everything loads and the encoder returns four bytes, and the component before
  and after the encoder was loaded.
\<close>

definition silentBuffer :: AudioBuffer where
  "silentBuffer = \<lparr>sampleRate = 44100, channelData = replicate 1470 0\<rparr>"

definition exampleEnv :: export_env where
  "exampleEnv =
     \<lparr>canvasPresent = True, songPresent = True, songTitle = ''Song'', audioUrl = ''song.mp3'',
      contextAvailable = True, backgroundType = BgRandom, videoUrl = [],
      page = noLiveAssets,
      loadVideo = (\<lambda>u. None), loadImageAsDataUrl = (\<lambda>u. None),
      fetchAudio = (\<lambda>u. Inr [73, 68, 51]),
      decodeAudioData = (\<lambda>b. Inr silentBuffer),
      writeFile = (\<lambda>name. None),
      execProgress = [0.5, 1], execRejects = None,
      readOutput = (\<lambda>fs. Inr [0, 0, 0, 24]),
      ffmpegLoads = True,
      uiBeforeSnapshot = (\<lambda>r. r), uiDuringFrame = (\<lambda>i r. r),
      presetRenderer = blankPreset, ambient0 = exampleAmbient\<rparr>"

definition initialComponent :: component where
  "initialComponent =
     \<lparr>isExporting = False, exportProgress = 0, exportStage = StageIdle, progressLog = [],
      ffmpegLoaded = False, ffmpegLoading = False, ffmpegRef = None,
      refsNow = \<lparr>configRef = minimalConfig, effectsRef = allEffectsOff,
                 intensitiesRef = defaultIntensities, textLayersRef = defaultTexts\<rparr>,
      alerts = [], consoleErrors = [], downloads = []\<rparr>"

definition readyComponent :: component where
  "readyComponent = loadFFmpeg exampleEnv initialComponent"

text \<open>The same world with an encoder whose output file is empty.\<close>

definition emptyOutputEnv :: export_env where
  "emptyOutputEnv = exampleEnv\<lparr>readOutput := (\<lambda>fs. Inr [])\<rparr>"

text \<open>
  The same world with an encoder whose output lists, for every file it was given, the
  number of canvas commands or bytes in it; and a user who removes all text layers
  while the audio is being fetched.
\<close>

definition fileSize :: "string \<times> file_content \<Rightarrow> int" where
  "fileSize p = (case snd p of FrameJpeg ops \<Rightarrow> int (length ops) | FileBytes b \<Rightarrow> int (length b))"

definition sizingEnv :: export_env where
  "sizingEnv = exampleEnv\<lparr>readOutput := (\<lambda>fs. Inr (map fileSize fs))\<rparr>"

definition removeTexts :: "refs \<Rightarrow> refs" where
  "removeTexts r = r\<lparr>textLayersRef := []\<rparr>"

lemma sampleLoop_closed:
  "0 \<le> i \<Longrightarrow>
   sampleLoop cd e i s = s + (\<Sum>k = nat i..<nat (min e (int (length cd))). \<bar>cd ! k\<bar>)"
proof (induction cd e i s rule: sampleLoop.induct)
  case (1 cd binEnd i sm)
  show ?case
  proof (cases "i < binEnd \<and> i < int (length cd)")
    case True
    then have lt: "nat i < nat (min binEnd (int (length cd)))"
      using "1.prems" by auto
    have step: "sampleLoop cd binEnd i sm = sampleLoop cd binEnd (i + 1) (sm + \<bar>cd ! nat i\<bar>)"
      using True by (subst sampleLoop.simps) simp
    have "nat (i + 1) = Suc (nat i)" using "1.prems" by auto
    then show ?thesis
      using "1.IH" [OF True] "1.prems" lt
      by (simp only: step) (simp add: sum.atLeast_Suc_lessThan)
  next
    case False
    then have "nat (min binEnd (int (length cd))) \<le> nat i" by auto
    then show ?thesis using False by (subst sampleLoop.simps) auto
  qed
qed

lemma sampleLoop_nonneg: "0 \<le> i \<Longrightarrow> 0 \<le> s \<Longrightarrow> 0 \<le> sampleLoop cd e i s"
  by (simp add: sampleLoop_closed sum_nonneg)

lemma binValue_range: "0 \<le> s \<Longrightarrow> 0 \<le> bin \<Longrightarrow> 0 \<le> binValue cd s e bin \<and> binValue cd s e bin \<le> 255"
proof -
  assume s: "0 \<le> s" and b: "0 \<le> bin"
  define binSize where "binSize = max 1 ((e - s) div frequencyBinCount)"
  have bs: "1 \<le> binSize" by (simp add: binSize_def)
  have st: "0 \<le> s + bin * binSize" using s b bs by simp
  have "0 \<le> sampleLoop cd (min (s + bin * binSize + binSize) e) (s + bin * binSize) 0"
    using st by (rule sampleLoop_nonneg) simp
  then have "0 \<le> sampleLoop cd (min (s + bin * binSize + binSize) e) (s + bin * binSize) 0 / real_of_int binSize * 512"
    using bs by simp
  then show ?thesis
    using bs unfolding binValue_def Let_def binSize_def [symmetric]
    by simp
qed

lemma toUint8_id: "0 \<le> v \<Longrightarrow> v \<le> 255 \<Longrightarrow> toUint8 v = v"
  by (simp add: toUint8_def)

lemma length_binLoop: "length (binLoop cd s e bin fd) = length fd"
  by (induction cd s e bin fd rule: binLoop.induct) (subst binLoop.simps, simp)

lemma nth_binLoop:
  "0 \<le> bin \<Longrightarrow> k < length fd \<Longrightarrow>
   binLoop cd s e bin fd ! k =
     (if bin \<le> int k \<and> int k < frequencyBinCount then toUint8 (binValue cd s e (int k)) else fd ! k)"
proof (induction cd s e bin fd rule: binLoop.induct)
  case (1 cd s e bin fd)
  show ?case
  proof (cases "bin < frequencyBinCount")
    case True
    have "binLoop cd s e bin fd ! k =
          binLoop cd s e (bin + 1) (fd[nat bin := toUint8 (binValue cd s e bin)]) ! k"
      using True by (subst binLoop.simps) simp
    also have "\<dots> = (if bin + 1 \<le> int k \<and> int k < frequencyBinCount
                      then toUint8 (binValue cd s e (int k))
                      else fd[nat bin := toUint8 (binValue cd s e bin)] ! k)"
      using "1.IH" [OF True] "1.prems" by simp
    also have "\<dots> = (if bin \<le> int k \<and> int k < frequencyBinCount
                      then toUint8 (binValue cd s e (int k)) else fd ! k)"
    proof (cases "int k = bin")
      case True
      then have "nat bin = k" by simp
      then show ?thesis using True \<open>bin < frequencyBinCount\<close> "1.prems" by auto
    next
      case False
      then have "nat bin \<noteq> k" using "1.prems" by auto
      then show ?thesis using False by auto
    qed
    finally show ?thesis .
  next
    case False
    then show ?thesis by (subst binLoop.simps) auto
  qed
qed

lemma frameLoop_closed:
  "0 \<le> frame \<Longrightarrow>
   frameLoop cd spf tot frame frames =
     frames @ map (\<lambda>k. frameSpectrum cd spf (int k)) [nat frame..<nat tot]"
proof (induction cd spf tot frame frames rule: frameLoop.induct)
  case (1 cd spf tot frame frames)
  show ?case
  proof (cases "frame < tot")
    case True
    then have "[nat frame..<nat tot] = nat frame # [nat (frame + 1)..<nat tot]"
      using "1.prems" by (simp add: upt_conv_Cons nat_add_distrib)
    then show ?thesis
      using "1.IH" [OF True] "1.prems" True by (subst frameLoop.simps) simp
  next
    case False
    then show ?thesis by (subst frameLoop.simps) simp
  qed
qed


lemma frequencyBinCount_eq: "frequencyBinCount = 1024"
  by (simp add: frequencyBinCount_def fftSize_def)

lemma length_frameSpectrum: "length (frameSpectrum cd spf frame) = 1024"
  by (simp add: frameSpectrum_def Let_def length_binLoop newUint8Array_def frequencyBinCount_eq)

lemma nth_frameSpectrum:
  assumes "0 \<le> frame * spf" and "k < 1024"
  shows "frameSpectrum cd spf frame ! k =
           binValue cd (frame * spf) (min (frame * spf + fftSize) (int (length cd))) (int k)"
proof -
  have "k < length (newUint8Array (nat frequencyBinCount))"
    using assms(2) by (simp add: newUint8Array_def frequencyBinCount_eq)
  then show ?thesis
    using assms binValue_range [of "frame * spf" "int k" cd]
    by (simp add: frameSpectrum_def Let_def nth_binLoop frequencyBinCount_eq toUint8_id)
qed

lemma analyzeAudioOffline_closed:
  "analyzeAudioOffline b fps =
     map (\<lambda>k. frameSpectrum (channelData b) \<lfloor>sampleRate b / fps\<rfloor> (int k))
       [0..<nat (totalFramesOf b fps)]"
  by (simp add: analyzeAudioOffline_def Let_def frameLoop_closed)

lemma frame_values_in_range:
  assumes "0 \<le> frame * spf" and "v \<in> set (frameSpectrum cd spf frame)"
  shows "0 \<le> v \<and> v \<le> 255"
proof -
  from assms(2) obtain k where k: "k < 1024" and v: "v = frameSpectrum cd spf frame ! k"
    by (auto simp: in_set_conv_nth length_frameSpectrum)
  show ?thesis
    unfolding v nth_frameSpectrum [OF assms(1) k]
    by (rule binValue_range) (use assms(1) in simp_all)
qed

text \<open>
  Claim C9.  A buffer of ten seconds at 44.1 kHz holds 441000 samples in channel 0.
  Analysed at 30 frames per second it gives exactly 300 frames; every frame has 1024
  bins and every bin holds a value between 0 and 255.
\<close>

theorem scenario_10s_44100Hz_30fps:
  assumes "sampleRate b = 44100" and "length (channelData b) = 441000"
  shows "length (analyzeAudioOffline b 30) = 300 \<and>
         (\<forall>frame \<in> set (analyzeAudioOffline b 30).
            length frame = 1024 \<and> (\<forall>v \<in> set frame. 0 \<le> v \<and> v \<le> 255))"
proof -
  have tf: "totalFramesOf b 30 = 300"
    using assms by (simp add: totalFramesOf_def duration_def)
  have spf: "\<lfloor>sampleRate b / 30\<rfloor> = 1470"
    using assms by simp
  show ?thesis
    unfolding analyzeAudioOffline_closed tf spf
    by (auto simp: length_frameSpectrum dest: frame_values_in_range [rotated])
qed

theorem scenario_10s_44100Hz_30fps_witness:
  "sampleRate \<lparr>sampleRate = 44100, channelData = replicate 441000 (1/2)\<rparr> = 44100 \<and>
   length (channelData \<lparr>sampleRate = 44100, channelData = replicate 441000 (1/2)\<rparr>) = 441000 \<and>
   length (analyzeAudioOffline \<lparr>sampleRate = 44100, channelData = replicate 441000 (1/2)\<rparr> 30) = 300"
  using scenario_10s_44100Hz_30fps [of "\<lparr>sampleRate = 44100, channelData = replicate 441000 (1/2)\<rparr>"]
  by simp












lemma particleLoop_closed:
  "0 \<le> i \<Longrightarrow>
   particleLoop body n i ops = ops @ concat (map (\<lambda>k. body (int k)) [nat i..<nat n])"
proof (induction body n i ops rule: particleLoop.induct)
  case (1 body n i ops)
  show ?case
  proof (cases "i < n")
    case True
    then have "[nat i..<nat n] = nat i # [nat (i + 1)..<nat n]"
      using "1.prems" by (simp add: upt_conv_Cons nat_add_distrib)
    then show ?thesis
      using "1.IH" [OF True] "1.prems" True by (subst particleLoop.simps) simp
  next
    case False
    then show ?thesis by (subst particleLoop.simps) simp
  qed
qed

text \<open>
  Claim C7.  \<^verbatim>\<open>drawParticles\<close> calls neither \<^verbatim>\<open>Math.random()\<close> nor the clock: it
  leaves the ambient state as it found it, and its commands are the same whatever that
  state is.  The commands of each of the four sub-populations are those of its
  particles in index order, and the commands of particle \<open>i\<close> are a function of \<open>i\<close>
  and the arguments of the call alone (no state is carried from one particle to the
  next).
\<close>

theorem drawParticles_index_seeded:
  "drawParticles w h time bass count color amb =
     (concat (map (\<lambda>i. risingParticle w h time (bass / 255) color (int i))
                [0..<nat \<lfloor>count * 0.4\<rfloor>]) @
      concat (map (\<lambda>i. burstParticle (w / 2) (h / 2) time (bass / 255) color
                          \<lfloor>count * 0.35\<rfloor> (int i))
                [0..<nat \<lfloor>count * 0.35\<rfloor>]) @
      concat (map (\<lambda>i. orbitalParticle (w / 2) (h / 2) time (bass / 255) color
                          \<lfloor>count * 0.15\<rfloor> (int i))
                [0..<nat \<lfloor>count * 0.15\<rfloor>]) @
      concat (map (\<lambda>i. dustParticle w h time (bass / 255) (int i))
                [0..<nat \<lfloor>count * 0.1\<rfloor>]) @
      [SetGlobalAlpha 1, SetShadowBlur 0], amb) \<and>
   fst (drawParticles w h time bass count color amb') =
   fst (drawParticles w h time bass count color amb)"
  by (simp add: drawParticles_def Let_def particleLoop_closed)

lemma drawParticles_ambient:
  "drawParticles w h time bass count color amb = (fst (drawParticles w h time bass count color amb0), amb)"
  by (simp add: drawParticles_def Let_def)

lemmas offline_post_defs =
  renderOffline_scanlines_def renderOffline_vhs_def renderOffline_glitch_def
  renderOffline_cctv_def renderOffline_bloom_def renderOffline_filmGrain_def
  renderOffline_strobe_def renderOffline_vignette_def renderOffline_hueShift_def
  renderOffline_letterbox_def

lemmas live_post_defs =
  renderLoop_scanlines_def renderLoop_vhs_def renderLoop_glitch_def
  renderLoop_cctv_def renderLoop_bloom_def renderLoop_filmGrain_def
  renderLoop_strobe_def renderLoop_vignette_def renderLoop_hueShift_def
  renderLoop_letterbox_def

lemma renderOffline_postProcess_off:
  assumes "\<forall>k. \<not> snapEffects snap k"
  shows "renderOffline_postProcess snap width height normBass amb = ([], amb)"
  using assms by (simp add: renderOffline_postProcess_def offline_post_defs)

lemma renderLoop_postProcess_off:
  assumes "\<forall>k. \<not> snapEffects snap k"
  shows "renderLoop_postProcess snap width height normBass amb = ([], amb)"
  using assms by (simp add: renderLoop_postProcess_def live_post_defs)

text \<open>
  Claim C6.  With all thirteen toggles off, the post-processing section of a frame
  issues no command and calls \<^verbatim>\<open>Math.random()\<close> not once, in the offline renderer
  and in the live one; the pixelate stage issues none either and neither shake
  translation is applied.  The frame is then the clear, the background, the preset
  output, the particles, the album-art inlay and the text layers, in this order.
\<close>

theorem all_effects_off_identity:
  assumes off: "\<forall>k. \<not> snapEffects snap k"
  shows "renderOffline_postProcess snap width height normBass amb = ([], amb) \<and>
         renderLoop_postProcess snap width height normBass amb = ([], amb) \<and>
         renderOffline_frame drawPreset snap assets width height dataArray time amb =
           (let cfg = snapConfig snap;
                bass = renderOffline_bass dataArray;
                pulse = renderOffline_pulse dataArray;
                call = renderOffline_presetCall cfg width height dataArray
                         (renderOffline_timeDomain dataArray time) bass pulse time;
                (presetOps, amb') = (case call of None \<Rightarrow> ([], amb) | Some c \<Rightarrow> drawPreset c amb)
            in (renderOffline_clear width height @
                (case renderOffline_bgSource (bgImage assets) (bgVideo assets) time of
                   None \<Rightarrow> []
                 | Some src \<Rightarrow>
                     [Save, SetGlobalAlpha (1 - bgDim cfg),
                      Translate (width / 2) (height / 2),
                      Scale (1 + sin (time * 0.5) * 0.05) (1 + sin (time * 0.5) * 0.05),
                      DrawImage5 src (- width / 2) (- height / 2) width height,
                      Restore]) @
                [Save] @ presetOps @
                fst (drawParticles width height time bass (particleCount cfg) (primaryColor cfg) amb) @
                renderOffline_albumArt cfg width height pulse (albumImage assets) @
                renderOffline_texts cfg (snapTexts snap) width height pulse,
                amb')) \<and>
         renderLoop_frame drawPreset snap lassets width height dataArray timeDomain amb =
           (let cfg = snapConfig snap;
                time = dateNow amb / 1000;
                bass = renderLoop_bass dataArray;
                pulse = renderLoop_pulse dataArray;
                call = renderLoop_presetCall cfg width height dataArray timeDomain bass pulse time;
                (presetOps, amb') = (case call of None \<Rightarrow> ([], amb) | Some c \<Rightarrow> drawPreset c amb)
            in (renderLoop_clear width height @
                (case renderLoop_bgSource lassets of
                   None \<Rightarrow> []
                 | Some src \<Rightarrow>
                     [Save, SetGlobalAlpha (1 - bgDim cfg),
                      Translate (width / 2) (height / 2),
                      Scale (1 + sin (time * 0.5) * 0.05) (1 + sin (time * 0.5) * 0.05),
                      DrawImage5 src (- width / 2) (- height / 2) width height,
                      Restore]) @
                [Save] @ presetOps @
                fst (drawParticles width height time bass (particleCount cfg) (primaryColor cfg) amb) @
                renderLoop_albumArt cfg width height pulse lassets @
                renderLoop_texts cfg (snapTexts snap) width height pulse,
                amb'))"
proof -
  have s: "\<not> snapEffects snap Shake" and p: "\<not> snapEffects snap Pixelate"
    using off by simp_all
  have bgO: "renderOffline_background cfg (snapEffects snap) ints width height t nb src a =
      ((case src of None \<Rightarrow> [] | Some sr \<Rightarrow>
          [Save, SetGlobalAlpha (1 - bgDim cfg), Translate (width / 2) (height / 2),
           Scale (1 + sin (t * 0.5) * 0.05) (1 + sin (t * 0.5) * 0.05),
           DrawImage5 sr (- width / 2) (- height / 2) width height, Restore]), a)"
    for cfg ints t nb src a
    using s by (simp add: renderOffline_background_def Let_def split: option.splits)
  have bgL: "renderLoop_background cfg (snapEffects snap) ints width height t nb src a =
      ((case src of None \<Rightarrow> [] | Some sr \<Rightarrow>
          [Save, SetGlobalAlpha (1 - bgDim cfg), Translate (width / 2) (height / 2),
           Scale (1 + sin (t * 0.5) * 0.05) (1 + sin (t * 0.5) * 0.05),
           DrawImage5 sr (- width / 2) (- height / 2) width height, Restore]), a)"
    for cfg ints t nb src a
    using s by (simp add: renderLoop_background_def Let_def split: option.splits)
  have prO: "renderOffline_preset drawPreset (snapEffects snap) ints nb call a =
      (Save # fst (case call of None \<Rightarrow> ([], a) | Some c \<Rightarrow> drawPreset c a),
       snd (case call of None \<Rightarrow> ([], a) | Some c \<Rightarrow> drawPreset c a))"
    for ints nb call a
    using s by (simp add: renderOffline_preset_def Let_def split: prod.splits)
  have prL: "renderLoop_preset drawPreset (snapEffects snap) ints nb call a =
      (Save # fst (case call of None \<Rightarrow> ([], a) | Some c \<Rightarrow> drawPreset c a),
       snd (case call of None \<Rightarrow> ([], a) | Some c \<Rightarrow> drawPreset c a))"
    for ints nb call a
    using s by (simp add: renderLoop_preset_def Let_def split: prod.splits)
  have pxO: "renderOffline_pixelate (snapEffects snap) ints width height = []" for ints
    using p by (simp add: renderOffline_pixelate_def)
  have pxL: "renderLoop_pixelate (snapEffects snap) ints width height = []" for ints
    using p by (simp add: renderLoop_pixelate_def)
  have dp: "drawParticles w h t b c col a = (fst (drawParticles w h t b c col amb), a)"
    for w h t b c col a
    by (rule drawParticles_ambient)
  show ?thesis
    by (simp add: renderOffline_postProcess_off [OF off] renderLoop_postProcess_off [OF off]
        renderOffline_frame_def renderOffline_core_def renderLoop_frame_def renderLoop_core_def
        Let_def bgO bgL prO prL pxO pxL dp [of _ _ _ _ _ _ "snd _"] split: prod.splits)
qed

theorem all_effects_off_identity_witness:
  "(\<forall>k. \<not> snapEffects plainSnapshot k) \<and>
   renderOffline_postProcess plainSnapshot 1920 1080 0 exampleAmbient = ([], exampleAmbient) \<and>
   renderLoop_postProcess plainSnapshot 1920 1080 0 exampleAmbient = ([], exampleAmbient) \<and>
   renderOffline_frame blankPreset plainSnapshot noOfflineAssets 1920 1080 (newUint8Array 1024) 0
       exampleAmbient =
     ([SetGlobalCompositeOperation ''source-over'', SetFillStyle (Solid (Css ''#000'')),
       FillRect 0 0 1920 1080, Save, SetGlobalAlpha 1, SetShadowBlur 0,
       SetShadowBlur 10, SetShadowColor (Css ''black''), SetTextAlign ''center'', Restore],
      exampleAmbient)"
proof -
  have h: "\<forall>k. \<not> snapEffects plainSnapshot k"
    by (simp add: plainSnapshot_def allEffectsOff_def)
  show ?thesis
    using h all_effects_off_identity [OF h, of 1920 1080 0 exampleAmbient blankPreset
        noOfflineAssets "newUint8Array 1024" 0 noLiveAssets "newUint8Array 1024"]
    by (simp add: plainSnapshot_def minimalConfig_def defaultConfig_def noOfflineAssets_def
        renderOffline_presetCall_def renderOffline_bgSource_def renderOffline_clear_def
        renderOffline_albumArt_def renderOffline_texts_def drawParticles_def Let_def
        particleLoop_closed)
qed
















lemma frameLoop_done:
  "\<not> frameIndex < totalFrames \<Longrightarrow>
   renderOffline_frameLoop env snap assets frames totalFrames frameIndex st canvasOps amb =
     (None, st, canvasOps, amb)"
  by (subst renderOffline_frameLoop.simps) simp

lemma frameLoop_throw:
  "frameIndex < totalFrames \<Longrightarrow> writeFile env (frameFileName frameIndex) = Some reason \<Longrightarrow>
   renderOffline_frameLoop env snap assets frames totalFrames frameIndex st canvasOps amb =
     (let r = renderOffline_frame (presetRenderer env) snap assets exportWidth exportHeight
                (frameDataArray frames frameIndex) (real_of_int frameIndex / exportFps) amb
      in (Some reason, st, canvasOps @ fst r, snd r))"
  by (subst renderOffline_frameLoop.simps) (simp add: Let_def split: prod.splits)

lemma frameLoop_step:
  "frameIndex < totalFrames \<Longrightarrow> writeFile env (frameFileName frameIndex) = None \<Longrightarrow>
   renderOffline_frameLoop env snap assets frames totalFrames frameIndex st canvasOps amb =
     (let r = renderOffline_frame (presetRenderer env) snap assets exportWidth exportHeight
                (frameDataArray frames frameIndex) (real_of_int frameIndex / exportFps) amb;
          st1 = st\<lparr>ffmpegRef := map_option
                   (ffmpegWriteFile (frameFileName frameIndex) (FrameJpeg (canvasOps @ fst r)))
                   (ffmpegRef st)\<rparr>;
          st2 = (if frameIndex mod 10 = 0
                 then setExportProgress
                        (15 + mathRound ((real_of_int frameIndex / real_of_int totalFrames) * 55)) st1
                 else st1);
          st3 = st2\<lparr>refsNow := uiDuringFrame env frameIndex (refsNow st2)\<rparr>
      in renderOffline_frameLoop env snap assets frames totalFrames (frameIndex + 1) st3
           (canvasOps @ fst r) (snd r))"
  by (subst renderOffline_frameLoop.simps) (simp add: Let_def split: prod.splits)


lemma frameLoop_completes:
  "\<forall>name. writeFile env name = None \<Longrightarrow>
   fst (renderOffline_frameLoop env snap assets frames totalFrames frameIndex st canvasOps amb) = None"
proof (induction "nat (totalFrames - frameIndex)" arbitrary: frameIndex st canvasOps amb)
  case 0
  then have "\<not> frameIndex < totalFrames" by simp
  then show ?case by (simp add: frameLoop_done)
next
  case (Suc n)
  then have lt: "frameIndex < totalFrames" and n: "n = nat (totalFrames - (frameIndex + 1))"
    by linarith+
  have w: "writeFile env (frameFileName frameIndex) = None"
    using Suc.prems by simp
  show ?case
    by (simp only: frameLoop_step [OF lt w] Let_def Suc.hyps(1) [OF n Suc.prems])
qed


lemma exampleEnv_writes: "\<forall>name. writeFile exampleEnv name = None"
  by (simp add: exampleEnv_def)


lemma stableView_setExportProgress [simp]:
  "stableView (setExportProgress v st) = stableView st"
  by (simp add: stableView_def setExportProgress_def)

lemma frameLoop_stable:
  "stableView (fst (snd (renderOffline_frameLoop env snap assets frames totalFrames frameIndex
      st canvasOps amb))) = stableView st"
proof (induction "nat (totalFrames - frameIndex)" arbitrary: frameIndex st canvasOps amb)
  case 0
  then have "\<not> frameIndex < totalFrames" by simp
  then show ?case by (simp add: frameLoop_done)
next
  case (Suc n)
  then have lt: "frameIndex < totalFrames" and n: "n = nat (totalFrames - (frameIndex + 1))"
    by linarith+
  show ?case
  proof (cases "writeFile env (frameFileName frameIndex)")
    case None
    show ?thesis
      unfolding frameLoop_step [OF lt None] Let_def Suc.hyps(1) [OF n]
      by (cases "ffmpegRef st") (simp_all add: stableView_def setExportProgress_def ffmpegWriteFile_def)
  next
    case (Some reason)
    show ?thesis
      by (simp add: frameLoop_throw [OF lt Some] Let_def)
  qed
qed

lemma frameProgress_step:
  "frameIndex < totalFrames \<Longrightarrow>
   frameProgress totalFrames frameIndex =
     (if frameIndex mod 10 = 0
      then [15 + mathRound ((real_of_int frameIndex / real_of_int totalFrames) * 55)]
      else []) @ frameProgress totalFrames (frameIndex + 1)"
  by (simp add: frameProgress_def upto_rec1)

lemma frameProgress_done:
  "\<not> frameIndex < totalFrames \<Longrightarrow> frameProgress totalFrames frameIndex = []"
  by (simp add: frameProgress_def)

lemma frameLoop_progressLog:
  "fst (renderOffline_frameLoop env snap assets frames totalFrames frameIndex
         st canvasOps amb) = None \<Longrightarrow>
   progressLog (fst (snd (renderOffline_frameLoop env snap assets frames totalFrames frameIndex
      st canvasOps amb))) =
   progressLog st @ frameProgress totalFrames frameIndex"
proof (induction "nat (totalFrames - frameIndex)" arbitrary: frameIndex st canvasOps amb)
  case 0
  then have "\<not> frameIndex < totalFrames" by simp
  then show ?case by (simp add: frameLoop_done frameProgress_done)
next
  case (Suc n)
  then have lt: "frameIndex < totalFrames" and n: "n = nat (totalFrames - (frameIndex + 1))"
    by linarith+
  show ?case
  proof (cases "writeFile env (frameFileName frameIndex)")
    case None
    note step = frameLoop_step [OF lt None, of snap assets frames st canvasOps amb]
    from Suc.prems show ?thesis
      unfolding step Let_def frameProgress_step [OF lt]
      by (subst Suc.hyps(1) [OF n]) (simp_all add: setExportProgress_def)
  next
    case (Some reason)
    with Suc.prems show ?thesis
      by (simp add: frameLoop_throw [OF lt Some] Let_def)
  qed
qed

lemma mathRound_mono: "a \<le> b \<Longrightarrow> mathRound a \<le> mathRound b"
  by (simp add: mathRound_def floor_mono)

lemma frame_progress_value_bounds:
  assumes "0 \<le> k" "k < totalFrames"
  shows "0 \<le> mathRound ((real_of_int k / real_of_int totalFrames) * 55)"
    and "mathRound ((real_of_int k / real_of_int totalFrames) * 55) \<le> 55"
proof -
  define q where "q = real_of_int k / real_of_int totalFrames"
  have t: "0 < real_of_int totalFrames" using assms by simp
  have q0: "0 \<le> q" and q1: "q \<le> 1" using assms t by (simp_all add: q_def)
  have "mathRound 0 \<le> mathRound (q * 55)"
    by (rule mathRound_mono) (use q0 in simp)
  then show "0 \<le> mathRound ((real_of_int k / real_of_int totalFrames) * 55)"
    by (simp add: mathRound_def q_def)
  have "mathRound (q * 55) \<le> mathRound 55"
    by (rule mathRound_mono) (use q1 in simp)
  then show "mathRound ((real_of_int k / real_of_int totalFrames) * 55) \<le> 55"
    by (simp add: mathRound_def q_def)
qed

lemma frameProgress_bounds:
  assumes "0 \<le> frameIndex" and "v \<in> set (frameProgress totalFrames frameIndex)"
  shows "15 \<le> v \<and> v \<le> 70"
proof -
  from assms(2) obtain k where k: "frameIndex \<le> k" "k \<le> totalFrames - 1"
    and v: "v = 15 + mathRound ((real_of_int k / real_of_int totalFrames) * 55)"
    by (auto simp: frameProgress_def)
  have "0 \<le> k" "k < totalFrames" using k assms(1) by simp_all
  from frame_progress_value_bounds [OF this] show ?thesis
    unfolding v by simp
qed

lemma frameProgress_sorted:
  assumes "0 \<le> frameIndex"
  shows "sorted (frameProgress totalFrames frameIndex)"
proof -
  have mono: "15 + mathRound ((real_of_int x / real_of_int totalFrames) * 55)
                \<le> 15 + mathRound ((real_of_int y / real_of_int totalFrames) * 55)"
    if "x \<le> y" "frameIndex \<le> x" "y \<le> totalFrames - 1" for x y
  proof -
    have t: "0 < real_of_int totalFrames" using that assms by simp
    have "real_of_int x / real_of_int totalFrames \<le> real_of_int y / real_of_int totalFrames"
      using that(1) t by (simp add: divide_right_mono)
    then have "(real_of_int x / real_of_int totalFrames) * 55
                 \<le> (real_of_int y / real_of_int totalFrames) * 55"
      by (rule mult_right_mono) simp
    then show ?thesis
      by (intro add_left_mono mathRound_mono)
  qed
  have s: "sorted (filter (\<lambda>k. k mod 10 = 0) [frameIndex..totalFrames - 1])"
    by (rule sorted_wrt_filter) simp
  have "sorted_wrt (\<lambda>x y. 15 + mathRound ((real_of_int x / real_of_int totalFrames) * 55)
                \<le> 15 + mathRound ((real_of_int y / real_of_int totalFrames) * 55))
          (filter (\<lambda>k. k mod 10 = 0) [frameIndex..totalFrames - 1])"
  proof (rule sorted_wrt_mono_rel [OF _ s])
    fix x y
    assume "x \<in> set (filter (\<lambda>k. k mod 10 = 0) [frameIndex..totalFrames - 1])"
      and "y \<in> set (filter (\<lambda>k. k mod 10 = 0) [frameIndex..totalFrames - 1])"
      and xy: "x \<le> y"
    then have "frameIndex \<le> x" "y \<le> totalFrames - 1" by auto
    with xy show "15 + mathRound ((real_of_int x / real_of_int totalFrames) * 55)
                \<le> 15 + mathRound ((real_of_int y / real_of_int totalFrames) * 55)"
      by (rule mono)
  qed
  then show ?thesis
    by (simp add: frameProgress_def sorted_map)
qed

lemma onProgress_inert:
  "capturedStage \<noteq> StageEncoding \<Longrightarrow>
   foldl (\<lambda>s p. onProgress capturedStage p s) st ps = st"
  by (induction ps arbitrary: st) (simp_all add: onProgress_def)

lemma onProgress_keeps:
  "alerts (foldl (\<lambda>s p. onProgress c p s) st ps) = alerts st"
  "consoleErrors (foldl (\<lambda>s p. onProgress c p s) st ps) = consoleErrors st"
  "downloads (foldl (\<lambda>s p. onProgress c p s) st ps) = downloads st"
  "ffmpegRef (foldl (\<lambda>s p. onProgress c p s) st ps) = ffmpegRef st"
  by (induction ps arbitrary: st; simp add: onProgress_def setExportProgress_def)+

lemma execEvents_inert:
  "map_option handlerStage (ffmpegRef st) \<noteq> Some StageEncoding \<Longrightarrow> execEvents env st = st"
  unfolding execEvents_def Let_def
  by (rule onProgress_inert) (cases "ffmpegRef st", simp_all)

lemma execEvents_keeps:
  "alerts (execEvents env st) = alerts st"
  "consoleErrors (execEvents env st) = consoleErrors st"
  "downloads (execEvents env st) = downloads st"
  "ffmpegRef (execEvents env st) = ffmpegRef st"
  by (simp_all add: execEvents_def Let_def onProgress_keeps)

lemma renderOffline_encode_completed:
  assumes compl: "fst (renderOffline_encode env audioDataCopy totalFrames st) = Completed"
    and inert: "map_option handlerStage (ffmpegRef st) \<noteq> Some StageEncoding"
  shows "progressLog (snd (renderOffline_encode env audioDataCopy totalFrames st)) =
           progressLog st @ [70, 75, 95, 98, 100]"
    and "exportProgress (snd (renderOffline_encode env audioDataCopy totalFrames st)) = 100"
proof -
  have i: "map_option handlerStage (ffmpegRef (audioWritten audioDataCopy (beginEncoding st)))
             \<noteq> Some StageEncoding"
    using inert
    by (cases "ffmpegRef st")
       (simp_all add: audioWritten_def beginEncoding_def setExportProgress_def ffmpegWriteFile_def)
  show "progressLog (snd (renderOffline_encode env audioDataCopy totalFrames st)) =
           progressLog st @ [70, 75, 95, 98, 100]"
    and "exportProgress (snd (renderOffline_encode env audioDataCopy totalFrames st)) = 100"
    using compl
    unfolding renderOffline_encode_def Let_def execEvents_inert [OF i]
    by (auto simp: audioWritten_def beginEncoding_def downloadAndCleanup_def
        setExportProgress_def split: option.splits sum.splits if_splits)
qed

lemma renderOffline_encode_empty:
  assumes "writeFile env ''audio.mp3'' = None" and "execRejects env = None"
    and "\<forall>fs. readOutput env fs = Inr []"
  shows "fst (renderOffline_encode env audioDataCopy totalFrames st) =
           Threw ''FFmpeg produced an empty output file''"
    and "alerts (snd (renderOffline_encode env audioDataCopy totalFrames st)) = alerts st"
    and "consoleErrors (snd (renderOffline_encode env audioDataCopy totalFrames st)) = consoleErrors st"
    and "downloads (snd (renderOffline_encode env audioDataCopy totalFrames st)) = downloads st"
    and "exportProgress (snd (renderOffline_encode env audioDataCopy totalFrames st)) = 95"
  using assms
  by (simp_all add: renderOffline_encode_def Let_def setExportProgress_def execEvents_keeps
      audioWritten_def beginEncoding_def)

lemma renderOffline_run:
  assumes "songPresent env" "contextAvailable env" "ffmpegRef st \<noteq> None"
    and "fetchAudio env (audioUrl env) = Inr buf" and "decodeAudioData env buf = Inr ab"
  shows "renderOffline env st =
     (let totalFrames = \<lceil>duration ab * exportFps\<rceil>;
          st6 = (setExportProgress 15 (setExportProgress 10 (setExportProgress 5
                  (setExportProgress 2 (setExportProgress 1 st)))))
                \<lparr>refsNow := uiBeforeSnapshot env (refsNow st)\<rparr>;
          r = renderOffline_frameLoop env (takeSnapshot (uiBeforeSnapshot env (refsNow st)))
                (preloadAssets env) (analyzeAudioOffline ab exportFps) totalFrames 0 st6 []
                (ambient0 env)
      in case fst r of
           Some reason \<Rightarrow> (Threw reason, fst (snd r))
         | None \<Rightarrow> renderOffline_encode env buf totalFrames (fst (snd r)))"
  using assms
  by (auto simp: renderOffline_def Let_def setExportProgress_def split_beta split: option.splits)

lemma renderOffline_completed_cases:
  assumes "fst (renderOffline env st) = Completed"
  obtains buf ab where "songPresent env" "contextAvailable env" "ffmpegRef st \<noteq> None"
    "fetchAudio env (audioUrl env) = Inr buf" "decodeAudioData env buf = Inr ab"
  using assms
  by (auto simp: renderOffline_def Let_def split: if_splits sum.splits)

lemma startRecording_completed_cases:
  assumes "fst (startRecording env st) = Completed"
  obtains st0 where
    "st0 = (if ffmpegRef st = None then loadFFmpeg env st else st)"
    "ffmpegRef st0 \<noteq> None"
    "startRecording env st =
       renderOffline env (setExportProgress 0 (st0\<lparr>isExporting := True, exportStage := StageCapturing\<rparr>))"
    "fst (renderOffline env
       (setExportProgress 0 (st0\<lparr>isExporting := True, exportStage := StageCapturing\<rparr>))) = Completed"
  using assms
  by (auto simp: startRecording_def Let_def split: if_splits prod.splits outcome.splits)

lemma loadFFmpeg_keeps:
  "progressLog (loadFFmpeg env st) = progressLog st"
  "ffmpegRef st = None \<Longrightarrow> exportStage st \<noteq> StageEncoding \<Longrightarrow>
     map_option handlerStage (ffmpegRef (loadFFmpeg env st)) \<noteq> Some StageEncoding"
  by (auto simp: loadFFmpeg_def)

lemma export_progress_run:
  assumes ok: "fst (startRecording env st) = Completed"
    and handler: "map_option handlerStage (ffmpegRef st) \<noteq> Some StageEncoding"
    and stage: "exportStage st \<noteq> StageEncoding"
  shows "\<exists>totalFrames.
           progressLog (snd (startRecording env st)) =
             progressLog st @ [0, 1, 2, 5, 10, 15] @ frameProgress totalFrames 0 @
             [70, 75, 95, 98, 100]"
    and "exportProgress (snd (startRecording env st)) = 100"
proof -
  from ok obtain st0 where st0: "st0 = (if ffmpegRef st = None then loadFFmpeg env st else st)"
    and ff: "ffmpegRef st0 \<noteq> None"
    and sr: "startRecording env st =
       renderOffline env (setExportProgress 0 (st0\<lparr>isExporting := True, exportStage := StageCapturing\<rparr>))"
    and ro: "fst (renderOffline env
       (setExportProgress 0 (st0\<lparr>isExporting := True, exportStage := StageCapturing\<rparr>))) = Completed"
    by (rule startRecording_completed_cases)
  define st1 where "st1 = setExportProgress 0 (st0\<lparr>isExporting := True, exportStage := StageCapturing\<rparr>)"
  have log1: "progressLog st1 = progressLog st @ [0]"
    by (simp add: st1_def st0 setExportProgress_def loadFFmpeg_keeps)
  have h1: "map_option handlerStage (ffmpegRef st1) \<noteq> Some StageEncoding"
    using handler stage loadFFmpeg_keeps(2) [of st env]
    by (simp add: st1_def st0 setExportProgress_def)
  from ro obtain buf ab where c: "songPresent env" "contextAvailable env" "ffmpegRef st1 \<noteq> None"
    "fetchAudio env (audioUrl env) = Inr buf" "decodeAudioData env buf = Inr ab"
    unfolding st1_def [symmetric] by (rule renderOffline_completed_cases)
  define totalFrames where "totalFrames = \<lceil>duration ab * exportFps\<rceil>"
  define st6 where "st6 = (setExportProgress 15 (setExportProgress 10 (setExportProgress 5
                  (setExportProgress 2 (setExportProgress 1 st1)))))
                \<lparr>refsNow := uiBeforeSnapshot env (refsNow st1)\<rparr>"
  define r where "r = renderOffline_frameLoop env (takeSnapshot (uiBeforeSnapshot env (refsNow st1)))
                (preloadAssets env) (analyzeAudioOffline ab exportFps) totalFrames 0 st6 []
                (ambient0 env)"
  have run: "renderOffline env st1 =
      (case fst r of
           Some reason \<Rightarrow> (Threw reason, fst (snd r))
         | None \<Rightarrow> renderOffline_encode env buf totalFrames (fst (snd r)))"
    unfolding renderOffline_run [OF c] Let_def r_def st6_def totalFrames_def ..
  have none: "fst r = None"
    using ro unfolding st1_def [symmetric] run by (cases "fst r") simp_all
  then have enc: "renderOffline env st1 = renderOffline_encode env buf totalFrames (fst (snd r))"
    by (simp add: run)
  have log6: "progressLog st6 = progressLog st @ [0, 1, 2, 5, 10, 15]"
    by (simp add: st6_def setExportProgress_def log1)
  have logr: "progressLog (fst (snd r)) = progressLog st6 @ frameProgress totalFrames 0"
    using none unfolding r_def by (rule frameLoop_progressLog)
  have "stableView (fst (snd r)) = stableView st6"
    unfolding r_def by (rule frameLoop_stable)
  then have "map_option handlerStage (ffmpegRef (fst (snd r))) = map_option handlerStage (ffmpegRef st1)"
    by (simp add: stableView_def st6_def setExportProgress_def)
  then have hr: "map_option handlerStage (ffmpegRef (fst (snd r))) \<noteq> Some StageEncoding"
    using h1 by simp
  have ec: "fst (renderOffline_encode env buf totalFrames (fst (snd r))) = Completed"
    using ro unfolding st1_def [symmetric] enc .
  have "progressLog (snd (startRecording env st)) =
          progressLog st @ [0, 1, 2, 5, 10, 15] @ frameProgress totalFrames 0 @ [70, 75, 95, 98, 100]"
    unfolding sr st1_def [symmetric] enc renderOffline_encode_completed(1) [OF ec hr] logr log6
    by simp
  then show "\<exists>totalFrames.
           progressLog (snd (startRecording env st)) =
             progressLog st @ [0, 1, 2, 5, 10, 15] @ frameProgress totalFrames 0 @
             [70, 75, 95, 98, 100]" ..
  show "exportProgress (snd (startRecording env st)) = 100"
    unfolding sr st1_def [symmetric] enc by (rule renderOffline_encode_completed(2) [OF ec hr])
qed

lemma progress_trace_sorted:
  "sorted ([0, 1, 2, 5, 10, 15] @ frameProgress totalFrames 0 @ [70, 75, 95, 98, 100])"
  using frameProgress_sorted [of 0 totalFrames] frameProgress_bounds [of 0 _ totalFrames]
  by (fastforce simp: sorted_append)

text \<open>
  Claim C4.  Take a run of \<^verbatim>\<open>startRecording\<close> that ends with the download, from a
  state in which the encoder's progress handler did not capture the stage
  \<^verbatim>\<open>'encoding'\<close> (the handler is registered while no export runs, so it never does:
  \<open>loadFFmpeg_captures_idle\<close>).  The values passed to \<^verbatim>\<open>setExportProgress\<close> during the
  run are 0, 1, 2, 5, 10, 15, then the frame loop's values, then 70, 75, 95, 98, 100.
  The frame loop (the phase that renders and captures the frames) reports
  \<open>15 + round (frameIndex / totalFrames * 55)\<close> at every tenth frame, always between 15
  and 70; the whole sequence never decreases and ends at 100.
\<close>

theorem export_progress_monotone:
  assumes ok: "fst (startRecording env st) = Completed"
    and handler: "map_option handlerStage (ffmpegRef st) \<noteq> Some StageEncoding"
    and stage: "exportStage st \<noteq> StageEncoding"
  shows "exportProgress (snd (startRecording env st)) = 100 \<and>
         (\<exists>totalFrames.
            progressLog (snd (startRecording env st)) =
              progressLog st @ [0, 1, 2, 5, 10, 15] @ frameProgress totalFrames 0 @
              [70, 75, 95, 98, 100] \<and>
            (\<forall>v \<in> set (frameProgress totalFrames 0). 15 \<le> v \<and> v \<le> 70) \<and>
            sorted ([0, 1, 2, 5, 10, 15] @ frameProgress totalFrames 0 @ [70, 75, 95, 98, 100])) \<and>
         last (progressLog (snd (startRecording env st))) = 100"
proof -
  from export_progress_run(1) [OF assms] obtain totalFrames where
    log: "progressLog (snd (startRecording env st)) =
             progressLog st @ [0, 1, 2, 5, 10, 15] @ frameProgress totalFrames 0 @
             [70, 75, 95, 98, 100]" ..
  have b: "\<forall>v \<in> set (frameProgress totalFrames 0). 15 \<le> v \<and> v \<le> 70"
    using frameProgress_bounds [of 0 _ totalFrames] by blast
  have l: "last (progressLog (snd (startRecording env st))) = 100"
    unfolding log by simp
  show ?thesis
    using export_progress_run(2) [OF assms] log b progress_trace_sorted [of totalFrames] l
    by blast
qed

lemma loadFFmpeg_captures_idle:
  "exportStage st = StageIdle \<Longrightarrow>
   map_option handlerStage (ffmpegRef st) \<noteq> Some StageEncoding \<Longrightarrow>
   map_option handlerStage (ffmpegRef (loadFFmpeg env st)) \<noteq> Some StageEncoding"
  by (auto simp: loadFFmpeg_def)

lemma readyComponent_simps:
  "ffmpegRef readyComponent = Some \<lparr>files = [], handlerStage = StageIdle\<rparr>"
  "exportStage readyComponent = StageIdle"
  "isExporting readyComponent = False"
  "alerts readyComponent = []"
  "consoleErrors readyComponent = []"
  "downloads readyComponent = []"
  "progressLog readyComponent = []"
  "refsNow readyComponent = refsNow initialComponent"
  by (simp_all add: readyComponent_def loadFFmpeg_def initialComponent_def exampleEnv_def)

lemma startRecording_fst:
  "canvasPresent env \<Longrightarrow> songPresent env \<Longrightarrow> ffmpegRef st \<noteq> None \<Longrightarrow>
   fst (startRecording env st) =
   fst (renderOffline env (setExportProgress 0 (st\<lparr>isExporting := True, exportStage := StageCapturing\<rparr>)))"
  by (auto simp: startRecording_def setExportProgress_def split: prod.splits outcome.splits)

lemma renderOffline_encode_nonempty:
  assumes "writeFile env ''audio.mp3'' = None" and "execRejects env = None"
    and "\<forall>fs. \<exists>out. readOutput env fs = Inr out \<and> out \<noteq> []"
  shows "fst (renderOffline_encode env audioDataCopy totalFrames st) = Completed"
proof -
  from assms(3) obtain f where f: "\<And>fs. readOutput env fs = Inr (f fs)" "\<And>fs. f fs \<noteq> []"
    by metis
  show ?thesis
    using assms(1,2) by (simp add: renderOffline_encode_def Let_def f)
qed

lemma example_export_completes:
  "fst (startRecording exampleEnv readyComponent) = Completed"
proof -
  let ?st1 = "setExportProgress 0 (readyComponent\<lparr>isExporting := True, exportStage := StageCapturing\<rparr>)"
  have c: "songPresent exampleEnv" "contextAvailable exampleEnv" "ffmpegRef ?st1 \<noteq> None"
    "fetchAudio exampleEnv (audioUrl exampleEnv) = Inr [73, 68, 51]"
    "decodeAudioData exampleEnv [73, 68, 51] = Inr silentBuffer"
    by (simp_all add: exampleEnv_def setExportProgress_def readyComponent_simps)
  have enc: "fst (renderOffline_encode exampleEnv b t s) = Completed" for b t s
    by (rule renderOffline_encode_nonempty) (simp_all add: exampleEnv_def)
  have "fst (renderOffline exampleEnv ?st1) = Completed"
    unfolding renderOffline_run [OF c] Let_def
    by (simp add: frameLoop_completes [OF exampleEnv_writes] enc)
  then show ?thesis
    by (subst startRecording_fst) (simp_all add: exampleEnv_def readyComponent_simps)
qed

theorem export_progress_monotone_witness:
  "fst (startRecording exampleEnv readyComponent) = Completed \<and>
   map_option handlerStage (ffmpegRef readyComponent) \<noteq> Some StageEncoding \<and>
   exportStage readyComponent \<noteq> StageEncoding \<and>
   exportProgress (snd (startRecording exampleEnv readyComponent)) = 100 \<and>
   last (progressLog (snd (startRecording exampleEnv readyComponent))) = 100"
proof -
  have h: "map_option handlerStage (ffmpegRef readyComponent) \<noteq> Some StageEncoding"
    "exportStage readyComponent \<noteq> StageEncoding"
    by (simp_all add: readyComponent_simps)
  show ?thesis
    using example_export_completes h
      export_progress_monotone [OF example_export_completes h]
    by blast
qed

lemma startRecording_empty_output:
  assumes env: "canvasPresent env" "songPresent env" "contextAvailable env"
    and ff: "ffmpegRef st \<noteq> None"
    and audio: "fetchAudio env (audioUrl env) = Inr buf" "decodeAudioData env buf = Inr ab"
    and writes: "\<forall>name. writeFile env name = None"
    and exec: "execRejects env = None"
    and empty: "\<forall>fs. readOutput env fs = Inr []"
  shows "fst (startRecording env st) = Threw ''FFmpeg produced an empty output file'' \<and>
         exportStage (snd (startRecording env st)) = StageIdle \<and>
         \<not> isExporting (snd (startRecording env st)) \<and>
         alerts (snd (startRecording env st)) =
           alerts st @ [''Video rendering failed. Please try again.''] \<and>
         consoleErrors (snd (startRecording env st)) =
           consoleErrors st @ [''Rendering failed: FFmpeg produced an empty output file''] \<and>
         downloads (snd (startRecording env st)) = downloads st"
proof -
  define st1 where "st1 = setExportProgress 0 (st\<lparr>isExporting := True, exportStage := StageCapturing\<rparr>)"
  have c: "ffmpegRef st1 \<noteq> None"
    using ff by (simp add: st1_def setExportProgress_def)
  define totalFrames where "totalFrames = \<lceil>duration ab * exportFps\<rceil>"
  define st6 where "st6 = (setExportProgress 15 (setExportProgress 10 (setExportProgress 5
                  (setExportProgress 2 (setExportProgress 1 st1)))))
                \<lparr>refsNow := uiBeforeSnapshot env (refsNow st1)\<rparr>"
  define r where "r = renderOffline_frameLoop env (takeSnapshot (uiBeforeSnapshot env (refsNow st1)))
                (preloadAssets env) (analyzeAudioOffline ab exportFps) totalFrames 0 st6 []
                (ambient0 env)"
  have none: "fst r = None"
    unfolding r_def by (rule frameLoop_completes [OF writes])
  have run: "renderOffline env st1 = renderOffline_encode env buf totalFrames (fst (snd r))"
    unfolding renderOffline_run [OF env(2,3) c audio] Let_def
      r_def [symmetric] st6_def [symmetric] totalFrames_def [symmetric]
    by (simp add: none)
  have w: "writeFile env ''audio.mp3'' = None" using writes by simp
  note e = renderOffline_encode_empty [OF w exec empty, of buf totalFrames "fst (snd r)"]
  have "stableView (fst (snd r)) = stableView st6"
    unfolding r_def by (rule frameLoop_stable)
  then have keep: "alerts (fst (snd r)) = alerts st" "consoleErrors (fst (snd r)) = consoleErrors st"
    "downloads (fst (snd r)) = downloads st"
    by (simp_all add: stableView_def st6_def st1_def setExportProgress_def)
  obtain st2 where r2: "renderOffline env st1 = (Threw ''FFmpeg produced an empty output file'', st2)"
    and k2: "alerts st2 = alerts st" "consoleErrors st2 = consoleErrors st" "downloads st2 = downloads st"
    using e keep unfolding run [symmetric] by (cases "renderOffline env st1") simp
  from ff obtain f0 where f0: "ffmpegRef st = Some f0" by auto
  have sr: "startRecording env st =
      (case renderOffline env st1 of
         (Threw reason, st2) \<Rightarrow>
            (Threw reason,
             st2\<lparr>consoleErrors := consoleErrors st2 @ [''Rendering failed: '' @ reason],
                 alerts := alerts st2 @ [''Video rendering failed. Please try again.''],
                 isExporting := False,
                 exportStage := StageIdle\<rparr>)
       | (res, st2) \<Rightarrow> (res, st2))"
    using env by (simp add: startRecording_def Let_def f0 st1_def)
  show ?thesis
    unfolding sr r2 using k2 by simp
qed

text \<open>
  Claim C3, as the code has it.  When every step up to the encoder succeeds and reading
  \<^verbatim>\<open>output.mp4\<close> gives an empty buffer, \<^verbatim>\<open>renderOffline\<close> throws ``FFmpeg produced
  an empty output file''.  \<^verbatim>\<open>startRecording\<close> catches it: the message goes to the
  console, the user is shown the alert ``Video rendering failed. Please try again.'',
  and the job is reset (\<^verbatim>\<open>isExporting\<close> false, stage \<^verbatim>\<open>'idle'\<close>; the stage type has no
  failed value).  No download is triggered.
\<close>

theorem empty_output_resets_export:
  assumes "canvasPresent env" "songPresent env" "contextAvailable env"
    and "ffmpegRef st \<noteq> None"
    and "fetchAudio env (audioUrl env) = Inr buf" "decodeAudioData env buf = Inr ab"
    and "\<forall>name. writeFile env name = None"
    and "execRejects env = None"
    and "\<forall>fs. readOutput env fs = Inr []"
  shows "fst (startRecording env st) = Threw ''FFmpeg produced an empty output file'' \<and>
         exportStage (snd (startRecording env st)) = StageIdle \<and>
         \<not> isExporting (snd (startRecording env st)) \<and>
         alerts (snd (startRecording env st)) =
           alerts st @ [''Video rendering failed. Please try again.''] \<and>
         consoleErrors (snd (startRecording env st)) =
           consoleErrors st @ [''Rendering failed: FFmpeg produced an empty output file''] \<and>
         downloads (snd (startRecording env st)) = downloads st"
  using assms by (rule startRecording_empty_output)

lemma emptyOutputEnv_simps:
  "canvasPresent emptyOutputEnv" "songPresent emptyOutputEnv" "contextAvailable emptyOutputEnv"
  "fetchAudio emptyOutputEnv (audioUrl emptyOutputEnv) = Inr [73, 68, 51]"
  "decodeAudioData emptyOutputEnv [73, 68, 51] = Inr silentBuffer"
  "\<forall>name. writeFile emptyOutputEnv name = None"
  "execRejects emptyOutputEnv = None"
  "\<forall>fs. readOutput emptyOutputEnv fs = Inr []"
  by (simp_all add: emptyOutputEnv_def exampleEnv_def)

lemma readyComponent_loaded: "ffmpegRef readyComponent \<noteq> None"
  by (simp add: readyComponent_simps)

theorem empty_output_resets_export_witness:
  "canvasPresent emptyOutputEnv \<and> songPresent emptyOutputEnv \<and> contextAvailable emptyOutputEnv \<and>
   ffmpegRef readyComponent \<noteq> None \<and>
   fetchAudio emptyOutputEnv (audioUrl emptyOutputEnv) = Inr [73, 68, 51] \<and>
   decodeAudioData emptyOutputEnv [73, 68, 51] = Inr silentBuffer \<and>
   (\<forall>name. writeFile emptyOutputEnv name = None) \<and>
   execRejects emptyOutputEnv = None \<and>
   (\<forall>fs. readOutput emptyOutputEnv fs = Inr []) \<and>
   fst (startRecording emptyOutputEnv readyComponent) =
     Threw ''FFmpeg produced an empty output file'' \<and>
   downloads (snd (startRecording emptyOutputEnv readyComponent)) = []"
  using emptyOutputEnv_simps readyComponent_loaded
    empty_output_resets_export [OF emptyOutputEnv_simps(1-3) readyComponent_loaded
      emptyOutputEnv_simps(4-8)]
  by (simp add: readyComponent_simps)

text \<open>
  Claim C3, as the specification words it, fails: after the empty output the stage is
  \<^verbatim>\<open>'idle'\<close>, not a failed state, and the only message shown to the user is the
  generic alert; the words ``produced an empty output'' reach the console only.
\<close>

theorem empty_output_counterexample:
  "exportStage (snd (startRecording emptyOutputEnv readyComponent)) = StageIdle \<and>
   alerts (snd (startRecording emptyOutputEnv readyComponent)) =
     [''Video rendering failed. Please try again.''] \<and>
   consoleErrors (snd (startRecording emptyOutputEnv readyComponent)) =
     [''Rendering failed: FFmpeg produced an empty output file'']"
  using startRecording_empty_output [OF emptyOutputEnv_simps(1-3) readyComponent_loaded
      emptyOutputEnv_simps(4-8)]
  by (simp add: readyComponent_simps)

lemma exportView_eq_iff:
  "exportView st = exportView st' \<longleftrightarrow>
     isExporting st = isExporting st' \<and> exportProgress st = exportProgress st' \<and>
     exportStage st = exportStage st' \<and> progressLog st = progressLog st' \<and>
     ffmpegLoaded st = ffmpegLoaded st' \<and> ffmpegLoading st = ffmpegLoading st' \<and>
     ffmpegRef st = ffmpegRef st' \<and> alerts st = alerts st' \<and>
     consoleErrors st = consoleErrors st' \<and> downloads st = downloads st'"
  by (simp add: exportView_def)

lemma frameLoop_ui_independent:
  assumes env: "presetRenderer env' = presetRenderer env" "writeFile env' = writeFile env"
    and v: "exportView st = exportView st'"
  shows "fst (renderOffline_frameLoop env snap assets frames totalFrames frameIndex st canvasOps amb) =
         fst (renderOffline_frameLoop env' snap assets frames totalFrames frameIndex st' canvasOps amb) \<and>
         exportView (fst (snd (renderOffline_frameLoop env snap assets frames totalFrames frameIndex
            st canvasOps amb))) =
         exportView (fst (snd (renderOffline_frameLoop env' snap assets frames totalFrames frameIndex
            st' canvasOps amb))) \<and>
         snd (snd (renderOffline_frameLoop env snap assets frames totalFrames frameIndex st canvasOps amb)) =
         snd (snd (renderOffline_frameLoop env' snap assets frames totalFrames frameIndex st' canvasOps amb))"
  using v
proof (induction "nat (totalFrames - frameIndex)" arbitrary: frameIndex st st' canvasOps amb)
  case 0
  then have "\<not> frameIndex < totalFrames" by simp
  then show ?case using "0.prems" by (simp add: frameLoop_done)
next
  case (Suc n)
  then have lt: "frameIndex < totalFrames" and n: "n = nat (totalFrames - (frameIndex + 1))"
    by linarith+
  show ?case
  proof (cases "writeFile env (frameFileName frameIndex)")
    case None
    then have None': "writeFile env' (frameFileName frameIndex) = None"
      by (simp add: env)
    show ?thesis
      unfolding frameLoop_step [OF lt None] frameLoop_step [OF lt None'] Let_def env
      by (rule Suc.hyps(1) [OF n])
         (use Suc.prems in \<open>simp add: exportView_eq_iff setExportProgress_def\<close>)
  next
    case (Some reason)
    then have Some': "writeFile env' (frameFileName frameIndex) = Some reason"
      by (simp add: env)
    show ?thesis
      using Suc.prems
      by (simp add: frameLoop_throw [OF lt Some] frameLoop_throw [OF lt Some'] Let_def env)
  qed
qed


lemma exportView_refs:
  "exportView st = exportView st' \<Longrightarrow> st' = st\<lparr>refsNow := refsNow st'\<rparr>"
  by (rule component.equality) (simp_all add: exportView_eq_iff)

lemma exportView_update [simp]: "exportView (st\<lparr>refsNow := r\<rparr>) = exportView st"
  by (simp add: exportView_def)

lemma setExportProgress_refs:
  "setExportProgress v (s\<lparr>refsNow := r\<rparr>) = (setExportProgress v s)\<lparr>refsNow := r\<rparr>"
  by (simp add: setExportProgress_def)

lemma onProgress_refs:
  "onProgress c p (s\<lparr>refsNow := r\<rparr>) = (onProgress c p s)\<lparr>refsNow := r\<rparr>"
  by (simp add: onProgress_def setExportProgress_refs)

lemma foldl_onProgress_refs:
  "foldl (\<lambda>s p. onProgress c p s) (st\<lparr>refsNow := r\<rparr>) ps =
   (foldl (\<lambda>s p. onProgress c p s) st ps)\<lparr>refsNow := r\<rparr>"
  by (induction ps arbitrary: st) (simp_all only: foldl.simps onProgress_refs)

lemma encode_steps_refs:
  "beginEncoding (s\<lparr>refsNow := r\<rparr>) = (beginEncoding s)\<lparr>refsNow := r\<rparr>"
  "audioWritten a (s\<lparr>refsNow := r\<rparr>) = (audioWritten a s)\<lparr>refsNow := r\<rparr>"
  "execEvents env (s\<lparr>refsNow := r\<rparr>) = (execEvents env s)\<lparr>refsNow := r\<rparr>"
  "ffmpegFiles (s\<lparr>refsNow := r\<rparr>) = ffmpegFiles s"
  "downloadAndCleanup env t out (s\<lparr>refsNow := r\<rparr>) = (downloadAndCleanup env t out s)\<lparr>refsNow := r\<rparr>"
  by (simp_all add: beginEncoding_def audioWritten_def execEvents_def ffmpegFiles_def
      downloadAndCleanup_def Let_def setExportProgress_def foldl_onProgress_refs)

lemma renderOffline_encode_refs:
  "renderOffline_encode env a t (st\<lparr>refsNow := r\<rparr>) =
     (fst (renderOffline_encode env a t st), (snd (renderOffline_encode env a t st))\<lparr>refsNow := r\<rparr>)"
  by (simp add: renderOffline_encode_def Let_def encode_steps_refs setExportProgress_refs
      split: option.splits sum.splits)

lemma renderOffline_encode_env:
  assumes "writeFile env' = writeFile env" "execProgress env' = execProgress env"
    "execRejects env' = execRejects env" "readOutput env' = readOutput env"
    "songTitle env' = songTitle env"
  shows "renderOffline_encode env' a t st = renderOffline_encode env a t st"
proof -
  have e: "execEvents env' = execEvents env"
    by (intro ext) (simp add: execEvents_def assms)
  have d: "downloadAndCleanup env' = downloadAndCleanup env"
    by (intro ext) (simp add: downloadAndCleanup_def assms)
  show ?thesis
    unfolding renderOffline_encode_def e d assms ..
qed

lemma renderOffline_encode_view:
  assumes "writeFile env' = writeFile env" "execProgress env' = execProgress env"
    "execRejects env' = execRejects env" "readOutput env' = readOutput env"
    "songTitle env' = songTitle env"
    and v: "exportView st = exportView st'"
  shows "fst (renderOffline_encode env a t st) = fst (renderOffline_encode env' a t st') \<and>
         exportView (snd (renderOffline_encode env a t st)) =
         exportView (snd (renderOffline_encode env' a t st'))"
proof -
  have "renderOffline_encode env' a t st' = renderOffline_encode env a t (st\<lparr>refsNow := refsNow st'\<rparr>)"
    using exportView_refs [OF v] renderOffline_encode_env [OF assms(1-5)] by simp
  then show ?thesis
    by (simp add: renderOffline_encode_refs)
qed

lemma renderOffline_view:
  assumes e1: "songPresent env' = songPresent env" "contextAvailable env' = contextAvailable env"
      "audioUrl env' = audioUrl env" "fetchAudio env' = fetchAudio env"
      "decodeAudioData env' = decodeAudioData env" "preloadAssets env' = preloadAssets env"
      "ambient0 env' = ambient0 env"
    and e2: "presetRenderer env' = presetRenderer env" "writeFile env' = writeFile env"
    and e3: "execProgress env' = execProgress env" "execRejects env' = execRejects env"
      "readOutput env' = readOutput env" "songTitle env' = songTitle env"
    and v: "exportView st = exportView st'"
    and snap: "uiBeforeSnapshot env' (refsNow st') = uiBeforeSnapshot env (refsNow st)"
  shows "fst (renderOffline env st) = fst (renderOffline env' st') \<and>
         exportView (snd (renderOffline env st)) = exportView (snd (renderOffline env' st'))"
proof -
  have ff: "ffmpegRef st' = ffmpegRef st" using v by (simp add: exportView_eq_iff)
  show ?thesis
  proof (cases "songPresent env \<and> contextAvailable env \<and> ffmpegRef st \<noteq> None")
    case False
    then show ?thesis
      using v by (auto simp: renderOffline_def e1 ff)
  next
    case True
    then have c: "songPresent env" "contextAvailable env" "ffmpegRef st \<noteq> None"
      and c': "songPresent env'" "contextAvailable env'" "ffmpegRef st' \<noteq> None"
      by (simp_all add: e1 ff)
    show ?thesis
    proof (cases "fetchAudio env (audioUrl env)")
      case (Inl reason)
      then show ?thesis
        using c v by (simp add: renderOffline_def e1 ff Let_def exportView_eq_iff setExportProgress_def)
    next
      case (Inr buf)
      note f = this
      show ?thesis
      proof (cases "decodeAudioData env buf")
        case (Inl reason)
        then show ?thesis
          using c v f
          by (simp add: renderOffline_def e1 ff Let_def exportView_eq_iff setExportProgress_def)
      next
        case (Inr ab)
        have f': "fetchAudio env' (audioUrl env') = Inr buf" and d': "decodeAudioData env' buf = Inr ab"
          using f Inr by (simp_all add: e1)
        define t where "t = \<lceil>duration ab * exportFps\<rceil>"
        define s6 where "s6 = (\<lambda>st. setExportProgress 15 (setExportProgress 10 (setExportProgress 5
                  (setExportProgress 2 (setExportProgress 1 st)))))"
        define r where "r = renderOffline_frameLoop env
            (takeSnapshot (uiBeforeSnapshot env (refsNow st))) (preloadAssets env)
            (analyzeAudioOffline ab exportFps) t 0
            ((s6 st)\<lparr>refsNow := uiBeforeSnapshot env (refsNow st)\<rparr>) [] (ambient0 env)"
        define r' where "r' = renderOffline_frameLoop env'
            (takeSnapshot (uiBeforeSnapshot env (refsNow st))) (preloadAssets env)
            (analyzeAudioOffline ab exportFps) t 0
            ((s6 st')\<lparr>refsNow := uiBeforeSnapshot env (refsNow st)\<rparr>) [] (ambient0 env)"
        have run: "renderOffline env st =
            (case fst r of Some reason \<Rightarrow> (Threw reason, fst (snd r))
             | None \<Rightarrow> renderOffline_encode env buf t (fst (snd r)))"
          unfolding renderOffline_run [OF c f Inr] Let_def r_def s6_def t_def ..
        have run': "renderOffline env' st' =
            (case fst r' of Some reason \<Rightarrow> (Threw reason, fst (snd r'))
             | None \<Rightarrow> renderOffline_encode env' buf t (fst (snd r')))"
          unfolding renderOffline_run [OF c' f' d'] Let_def r'_def s6_def t_def snap e1 ..
        have v6: "exportView ((s6 st)\<lparr>refsNow := uiBeforeSnapshot env (refsNow st)\<rparr>) =
                  exportView ((s6 st')\<lparr>refsNow := uiBeforeSnapshot env (refsNow st)\<rparr>)"
          using v by (simp add: s6_def exportView_eq_iff setExportProgress_def)
        note loop = frameLoop_ui_independent [OF e2 v6,
            of "takeSnapshot (uiBeforeSnapshot env (refsNow st))" "preloadAssets env"
               "analyzeAudioOffline ab exportFps" t 0 "[]" "ambient0 env",
            folded r_def r'_def]
        show ?thesis
        proof (cases "fst r")
          case None
          then have n': "fst r' = None" using loop by simp
          show ?thesis
            unfolding run run' using None n' loop
              renderOffline_encode_view [OF e2(2) e3, of "fst (snd r)" "fst (snd r')" buf t]
            by simp
        next
          case (Some reason)
          then have s': "fst r' = Some reason" using loop by simp
          show ?thesis
            unfolding run run' using Some s' loop by simp
        qed
      qed
    qed
  qed
qed

lemma preloadAssets_cong:
  assumes "backgroundType env' = backgroundType env" "videoUrl env' = videoUrl env"
    "page env' = page env" "loadVideo env' = loadVideo env"
    "loadImageAsDataUrl env' = loadImageAsDataUrl env"
  shows "preloadAssets env' = preloadAssets env"
  unfolding preloadAssets_def assms ..

text \<open>
  Claim C5, as the code has it.  \<^verbatim>\<open>renderOffline\<close> reads the four refs once, after the
  assets are loaded and the audio is decoded and analysed, immediately before the first
  frame.  Whatever the UI does to the refs while the frames are rendered and written
  changes nothing: the outcome of the export, the frames written, the download, the
  progress are the same (the component after the export differs at most in the current
  contents of the refs).  What the UI did before that point is what the export renders:
  the export equals the one started with the refs already in that state.
\<close>

theorem export_renders_from_one_snapshot:
  "fst (renderOffline (env\<lparr>uiDuringFrame := f\<rparr>) st) =
     fst (renderOffline (env\<lparr>uiDuringFrame := g\<rparr>) st) \<and>
   exportView (snd (renderOffline (env\<lparr>uiDuringFrame := f\<rparr>) st)) =
     exportView (snd (renderOffline (env\<lparr>uiDuringFrame := g\<rparr>) st)) \<and>
   fst (renderOffline env st) =
     fst (renderOffline (env\<lparr>uiBeforeSnapshot := (\<lambda>r. r)\<rparr>)
            (st\<lparr>refsNow := uiBeforeSnapshot env (refsNow st)\<rparr>)) \<and>
   exportView (snd (renderOffline env st)) =
     exportView (snd (renderOffline (env\<lparr>uiBeforeSnapshot := (\<lambda>r. r)\<rparr>)
                       (st\<lparr>refsNow := uiBeforeSnapshot env (refsNow st)\<rparr>)))"
proof -
  have p1: "preloadAssets (env\<lparr>uiDuringFrame := g\<rparr>) = preloadAssets (env\<lparr>uiDuringFrame := f\<rparr>)"
    by (rule preloadAssets_cong) simp_all
  have p2: "preloadAssets (env\<lparr>uiBeforeSnapshot := (\<lambda>r. r)\<rparr>) = preloadAssets env"
    by (rule preloadAssets_cong) simp_all
  have a: "fst (renderOffline (env\<lparr>uiDuringFrame := f\<rparr>) st) =
     fst (renderOffline (env\<lparr>uiDuringFrame := g\<rparr>) st) \<and>
   exportView (snd (renderOffline (env\<lparr>uiDuringFrame := f\<rparr>) st)) =
     exportView (snd (renderOffline (env\<lparr>uiDuringFrame := g\<rparr>) st))"
    by (rule renderOffline_view [OF _ _ _ _ _ p1]) simp_all
  have b: "fst (renderOffline env st) =
     fst (renderOffline (env\<lparr>uiBeforeSnapshot := (\<lambda>r. r)\<rparr>)
            (st\<lparr>refsNow := uiBeforeSnapshot env (refsNow st)\<rparr>)) \<and>
   exportView (snd (renderOffline env st)) =
     exportView (snd (renderOffline (env\<lparr>uiBeforeSnapshot := (\<lambda>r. r)\<rparr>)
                       (st\<lparr>refsNow := uiBeforeSnapshot env (refsNow st)\<rparr>)))"
    by (rule renderOffline_view [OF _ _ _ _ _ p2]) simp_all
  from a b show ?thesis by simp
qed

lemma frameFileName_0: "frameFileName 0 = ''frame000000.jpg''"
  by code_simp

lemma silent_totalFrames: "\<lceil>duration silentBuffer * exportFps\<rceil> = 1"
  by (simp add: duration_def silentBuffer_def exportFps_def)

lemma minimal_frame_length:
  assumes "snapConfig snap = minimalConfig" "snapEffects snap = allEffectsOff"
  shows "length (fst (renderOffline_frame blankPreset snap noOfflineAssets w h d t amb)) =
         10 + 3 * length (snapTexts snap)"
proof -
  have off: "\<forall>k. \<not> snapEffects snap k"
    by (simp add: assms allEffectsOff_def)
  have tx: "length (concat (map (renderOffline_textLayer c w h p) ls)) = 3 * length ls" for c p ls
    by (induction ls) (simp_all add: renderOffline_textLayer_def Let_def)
  show ?thesis
    using off
    by (simp add: renderOffline_frame_def renderOffline_core_def renderOffline_postProcess_off [OF off]
        assms minimalConfig_def defaultConfig_def noOfflineAssets_def blankPreset_def
        renderOffline_presetCall_def renderOffline_bgSource_def renderOffline_clear_def
        renderOffline_background_def renderOffline_preset_def allEffectsOff_def
        renderOffline_albumArt_def renderOffline_pixelate_def renderOffline_texts_def
        drawParticles_def particleLoop_closed tx Let_def)
qed

lemma sizingEnv_fields:
  "canvasPresent sizingEnv" "songPresent sizingEnv" "contextAvailable sizingEnv"
  "fetchAudio sizingEnv = (\<lambda>u. Inr [73, 68, 51])"
  "decodeAudioData sizingEnv = (\<lambda>b. Inr silentBuffer)"
  "writeFile sizingEnv = (\<lambda>name. None)"
  "execRejects sizingEnv = None"
  "execProgress sizingEnv = [0.5, 1]"
  "readOutput sizingEnv = (\<lambda>fs. Inr (map fileSize fs))"
  "presetRenderer sizingEnv = blankPreset"
  "ambient0 sizingEnv = exampleAmbient"
  "uiDuringFrame sizingEnv = (\<lambda>i r. r)"
  "songTitle sizingEnv = ''Song''"
  "backgroundType sizingEnv = BgRandom"
  "page sizingEnv = noLiveAssets"
  "loadImageAsDataUrl sizingEnv = (\<lambda>u. None)"
  by (simp_all add: sizingEnv_def exampleEnv_def)

lemma sizingEnv_simps:
  "canvasPresent (sizingEnv\<lparr>uiBeforeSnapshot := u\<rparr>)" "songPresent (sizingEnv\<lparr>uiBeforeSnapshot := u\<rparr>)"
  "contextAvailable (sizingEnv\<lparr>uiBeforeSnapshot := u\<rparr>)"
  "fetchAudio (sizingEnv\<lparr>uiBeforeSnapshot := u\<rparr>) (audioUrl (sizingEnv\<lparr>uiBeforeSnapshot := u\<rparr>)) = Inr [73, 68, 51]"
  "decodeAudioData (sizingEnv\<lparr>uiBeforeSnapshot := u\<rparr>) [73, 68, 51] = Inr silentBuffer"
  "writeFile (sizingEnv\<lparr>uiBeforeSnapshot := u\<rparr>) = (\<lambda>name. None)"
  "execRejects (sizingEnv\<lparr>uiBeforeSnapshot := u\<rparr>) = None"
  "execProgress (sizingEnv\<lparr>uiBeforeSnapshot := u\<rparr>) = [0.5, 1]"
  "readOutput (sizingEnv\<lparr>uiBeforeSnapshot := u\<rparr>) = (\<lambda>fs. Inr (map fileSize fs))"
  "presetRenderer (sizingEnv\<lparr>uiBeforeSnapshot := u\<rparr>) = blankPreset"
  "ambient0 (sizingEnv\<lparr>uiBeforeSnapshot := u\<rparr>) = exampleAmbient"
  "uiBeforeSnapshot (sizingEnv\<lparr>uiBeforeSnapshot := u\<rparr>) = u"
  "uiDuringFrame (sizingEnv\<lparr>uiBeforeSnapshot := u\<rparr>) = (\<lambda>i r. r)"
  "songTitle (sizingEnv\<lparr>uiBeforeSnapshot := u\<rparr>) = ''Song''"
  "preloadAssets (sizingEnv\<lparr>uiBeforeSnapshot := u\<rparr>) = noOfflineAssets"
  by (simp_all add: sizingEnv_fields preloadAssets_def noLiveAssets_def truthy_def
      startsWith_def noOfflineAssets_def)

lemma sizing_export_downloads:
  assumes u: "configRef (u (refsNow initialComponent)) = minimalConfig"
      "effectsRef (u (refsNow initialComponent)) = allEffectsOff"
  shows "downloads (snd (startRecording (sizingEnv\<lparr>uiBeforeSnapshot := u\<rparr>) readyComponent)) =
     [(''Song.mp4'', [10 + 3 * int (length (textLayersRef (u (refsNow initialComponent)))), 3])]"
proof -
  let ?env = "sizingEnv\<lparr>uiBeforeSnapshot := u\<rparr>"
  let ?st1 = "setExportProgress 0 (readyComponent\<lparr>isExporting := True, exportStage := StageCapturing\<rparr>)"
  let ?snap = "takeSnapshot (u (refsNow initialComponent))"
  have c: "songPresent ?env" "contextAvailable ?env" "ffmpegRef ?st1 \<noteq> None"
    "fetchAudio ?env (audioUrl ?env) = Inr [73, 68, 51]"
    "decodeAudioData ?env [73, 68, 51] = Inr silentBuffer"
    by (simp_all add: sizingEnv_fields setExportProgress_def readyComponent_simps)
  have sn: "snapConfig ?snap = minimalConfig" "snapEffects ?snap = allEffectsOff"
    "snapTexts ?snap = textLayersRef (u (refsNow initialComponent))"
    by (simp_all add: takeSnapshot_def u)
  have w: "writeFile ?env (frameFileName 0) = None" by (simp add: sizingEnv_fields)
  have loop: "renderOffline_frameLoop ?env ?snap noOfflineAssets frames 1 0 s [] exampleAmbient =
      (let r = renderOffline_frame blankPreset ?snap noOfflineAssets exportWidth exportHeight
                 (frameDataArray frames 0) 0 exampleAmbient
       in (None,
           setExportProgress 15
             (s\<lparr>ffmpegRef := map_option (ffmpegWriteFile ''frame000000.jpg'' (FrameJpeg (fst r)))
                    (ffmpegRef s)\<rparr>),
           fst r, snd r))" for frames s
    by (simp add: frameLoop_step [OF _ w] frameLoop_done Let_def sizingEnv_fields frameFileName_0
        mathRound_def)
  have run: "downloads (snd (renderOffline ?env ?st1)) =
     [(''Song.mp4'', [10 + 3 * int (length (textLayersRef (u (refsNow initialComponent)))), 3])]"
    and ok: "fst (renderOffline ?env ?st1) = Completed"
    unfolding renderOffline_run [OF c] Let_def silent_totalFrames sizingEnv_simps
    by (simp_all add: loop Let_def renderOffline_encode_def sizingEnv_fields beginEncoding_def
        audioWritten_def execEvents_def onProgress_def ffmpegFiles_def downloadAndCleanup_def
        setExportProgress_def readyComponent_simps ffmpegWriteFile_def fileSize_def
        minimal_frame_length [OF sn(1,2)] sn(3))
  have "startRecording ?env readyComponent = renderOffline ?env ?st1"
    using ok
    by (cases "renderOffline ?env ?st1")
       (simp add: startRecording_def sizingEnv_fields readyComponent_simps Let_def)
  then show ?thesis by (simp add: run)
qed


text \<open>
  Claim C5, as the specification words it, fails for a change made while the export is
  in flight but before the frames are rendered.  In the export below the encoder's
  output lists the number of canvas commands of each frame.  When the user removes the
  two text layers while the audio is being fetched, the frame has 10 commands; when the
  user leaves them, it has 16.
\<close>

theorem early_mutation_counterexample:
  "downloads (snd (startRecording (sizingEnv\<lparr>uiBeforeSnapshot := (\<lambda>r. r)\<rparr>) readyComponent)) =
     [(''Song.mp4'', [16, 3])] \<and>
   downloads (snd (startRecording (sizingEnv\<lparr>uiBeforeSnapshot := removeTexts\<rparr>) readyComponent)) =
     [(''Song.mp4'', [10, 3])]"
proof -
  have a: "downloads (snd (startRecording (sizingEnv\<lparr>uiBeforeSnapshot := (\<lambda>r. r)\<rparr>) readyComponent)) =
     [(''Song.mp4'', [16, 3])]"
    by (subst sizing_export_downloads) (simp_all add: initialComponent_def defaultTexts_def)
  have b: "downloads (snd (startRecording (sizingEnv\<lparr>uiBeforeSnapshot := removeTexts\<rparr>) readyComponent)) =
     [(''Song.mp4'', [10, 3])]"
    by (subst sizing_export_downloads) (simp_all add: initialComponent_def removeTexts_def)
  from a b show ?thesis by simp
qed

theorem export_renders_from_one_snapshot_witness:
  "fst (renderOffline (exampleEnv\<lparr>uiDuringFrame := (\<lambda>i. removeTexts)\<rparr>) readyComponent) =
     fst (renderOffline (exampleEnv\<lparr>uiDuringFrame := (\<lambda>i r. r)\<rparr>) readyComponent) \<and>
   exportView (snd (renderOffline (exampleEnv\<lparr>uiDuringFrame := (\<lambda>i. removeTexts)\<rparr>) readyComponent)) =
     exportView (snd (renderOffline (exampleEnv\<lparr>uiDuringFrame := (\<lambda>i r. r)\<rparr>) readyComponent))"
  using export_renders_from_one_snapshot
    [where env = exampleEnv and f = "\<lambda>i. removeTexts" and st = readyComponent and g = "\<lambda>i r. r"]
  by blast

theorem drawParticles_index_seeded_witness:
  "drawParticles 1920 1080 0 0 0 ''#ec4899'' exampleAmbient =
     ([SetGlobalAlpha 1, SetShadowBlur 0], exampleAmbient)"
  using drawParticles_index_seeded [of 1920 1080 0 0 0 "''#ec4899''" exampleAmbient exampleAmbient]
  by simp

end
